theory Spec2Isabelle
  imports Complex_Main "HOL-Library.Word"
begin

section \<open>JavaScript values\<close>

text \<open>
  A JavaScript string is a sequence of UTF-16 code units: \<open>length\<close> and \<open>slice\<close> count code
  units, and the ellipsis U+2026 that the response synthesizer appends is one of them.
  ASCII text of the source is written with \<open>js\<close>; other characters by their code unit.
\<close>

type_synonym jschar = "16 word"
type_synonym jsstring = "jschar list"

definition js :: "string \<Rightarrow> jsstring" where
  "js s = map (\<lambda>c. of_nat (of_char c)) s"

definition nl :: jsstring where
  "nl = [0x0A]"

definition ellipsis :: jsstring where
  "ellipsis = [0x2026]"

text \<open>White space as \<open>String.prototype.trim\<close> and the regular expression class \<open>\s\<close> see it.\<close>

definition is_ws :: "jschar \<Rightarrow> bool" where
  "is_ws c \<longleftrightarrow>
     c \<in> {0x09, 0x0A, 0x0B, 0x0C, 0x0D, 0x20, 0xA0, 0x1680, 0x2028, 0x2029, 0x202F, 0x205F,
          0x3000, 0xFEFF}
     \<or> (0x2000 \<le> c \<and> c \<le> 0x200A)"

definition trim :: "jsstring \<Rightarrow> jsstring" where
  "trim s = rev (dropWhile is_ws (rev (dropWhile is_ws s)))"

text \<open>\<open>xs.join(sep)\<close> on an array of strings.\<close>

fun join :: "jsstring \<Rightarrow> jsstring list \<Rightarrow> jsstring" where
  "join sep [] = []"
| "join sep [x] = x"
| "join sep (x # y # ys) = x @ sep @ join sep (y # ys)"

text \<open>\<open>s.includes(t)\<close>: \<open>t\<close> occurs in \<open>s\<close> at some offset.\<close>

definition str_includes :: "jsstring \<Rightarrow> jsstring \<Rightarrow> bool" where
  "str_includes s t = list_ex (\<lambda>i. take (length t) (drop i s) = t) [0..<Suc (length s)]"

text \<open>
  \<open>claim.split(/\s+/).filter(Boolean)[0] ?? ""\<close>: the first maximal run of characters that
  are not white space, empty when there is none.
\<close>

definition firstKeyword :: "jsstring \<Rightarrow> jsstring" where
  "firstKeyword claim = takeWhile (\<lambda>c. \<not> is_ws c) (dropWhile is_ws claim)"

text \<open>What \<open>JSON.parse\<close> returns. A finite number is its real value.\<close>

datatype json =
    JNull
  | JBool bool
  | JNum real
  | JStr jsstring
  | JArr "json list"
  | JObj "(jsstring \<times> json) list"

datatype jsnum = NaN | NegInf | Fin real | PosInf

datatype js_error =
    Error (message: jsstring)
  | TypeError (message: jsstring)
  | SyntaxError (message: jsstring)

text \<open>
  \<open>parsed.key\<close> for the keys the code reads (\<open>verdict\<close>, \<open>confidence\<close>, \<open>reason\<close>):
  reading a property of \<open>null\<close> throws, an object gives the member or \<open>undefined\<close>
  (\<open>None\<close>), every other value gives \<open>undefined\<close>.
\<close>

fun get_prop :: "json \<Rightarrow> jsstring \<Rightarrow> js_error + json option" where
  "get_prop JNull k =
     Inl (TypeError (js ''Cannot read properties of null (reading '' @ [0x27] @ k @ [0x27] @ js '')''))"
| "get_prop (JObj kvs) k = Inr (map_of kvs k)"
| "get_prop v k = Inr None"

text \<open>
  \<open>Number(x)\<close>. The conversion of strings and arrays is ECMAScript's StringToNumber on
  their text; it is taken as the parameter \<open>conv\<close>.
\<close>

fun Number :: "(json \<Rightarrow> jsnum) \<Rightarrow> json option \<Rightarrow> jsnum" where
  "Number conv None = NaN"
| "Number conv (Some JNull) = Fin 0"
| "Number conv (Some (JBool b)) = Fin (if b then 1 else 0)"
| "Number conv (Some (JNum r)) = Fin r"
| "Number conv (Some (JStr s)) = conv (JStr s)"
| "Number conv (Some (JArr xs)) = conv (JArr xs)"
| "Number conv (Some (JObj kvs)) = NaN"

text \<open>\<open>n || d\<close> on numbers: \<open>NaN\<close> and zero are falsy.\<close>

definition num_or :: "jsnum \<Rightarrow> real \<Rightarrow> jsnum" where
  "num_or n d = (if n = NaN \<or> n = Fin 0 then Fin d else n)"

fun Math_min :: "jsnum \<Rightarrow> jsnum \<Rightarrow> jsnum" where
  "Math_min NaN y = NaN"
| "Math_min x NaN = NaN"
| "Math_min NegInf y = NegInf"
| "Math_min x NegInf = NegInf"
| "Math_min PosInf y = y"
| "Math_min x PosInf = x"
| "Math_min (Fin a) (Fin b) = Fin (min a b)"

fun Math_max :: "jsnum \<Rightarrow> jsnum \<Rightarrow> jsnum" where
  "Math_max NaN y = NaN"
| "Math_max x NaN = NaN"
| "Math_max PosInf y = PosInf"
| "Math_max x PosInf = PosInf"
| "Math_max NegInf y = y"
| "Math_max x NegInf = x"
| "Math_max (Fin a) (Fin b) = Fin (max a b)"

text \<open>Truthiness of a parsed value, as \<open>||\<close> tests it.\<close>

fun truthy :: "json \<Rightarrow> bool" where
  "truthy JNull = False"
| "truthy (JBool b) = b"
| "truthy (JNum r) = (r \<noteq> 0)"
| "truthy (JStr s) = (s \<noteq> [])"
| "truthy (JArr xs) = True"
| "truthy (JObj kvs) = True"

text \<open>
  JavaScript numbers are IEEE 754 binary64 values, and every arithmetic operation rounds
  its exact result to the nearest of them, ties to the even significand. \<open>binary64 x\<close> is
  that rounding of a real \<open>x\<close>: the exponent of \<open>x\<close> (not below that of the subnormals)
  fixes the spacing \<open>ulp\<close> of the values around it, and \<open>x\<close> goes to the nearest multiple.
  Overflow to infinity (beyond \<open>2 ^ 1024\<close>) is not modelled: no operation below reaches it
  on counters that are integers held exactly by a double (magnitude at most \<open>2 ^ 53\<close>).
  Numbers are kept as reals: the operations of the source are rounded, and so are its
  literals that are not binary64 values themselves (\<open>0.7\<close>, \<open>0.8\<close>); \<open>min\<close>, \<open>max\<close> and
  \<open>abs\<close> do not round.
\<close>

definition round_half_even :: "real \<Rightarrow> int" where
  "round_half_even x =
     (let f = \<lfloor>x\<rfloor>; r = x - of_int f
      in if r < 1 / 2 then f else if r > 1 / 2 then f + 1 else if even f then f else f + 1)"

definition binary64 :: "real \<Rightarrow> real" where
  "binary64 x =
     (if x = 0 then 0
      else let e = max \<lfloor>log 2 \<bar>x\<bar>\<rfloor> (- 1022);
               ulp = 2 powr (of_int e - 52)
           in ulp * of_int (round_half_even (x / ulp)))"

section \<open>Data model\<close>

text \<open>
  The Prisma schema is not part of the sources. The rows below carry the columns the code
  reads and writes; the enumerations have the members the code names.
\<close>

datatype ThreatSeverity = LOW | MEDIUM | HIGH | CRITICAL

datatype ThreatType = NEGATIVE_SENTIMENT | VIRAL_RISK | CRISIS

datatype ThreatStatus = NEW | RESPONDED | RESOLVED

datatype ResponseStatus = PENDING | POSTED | FAILED

record ScrapedItem =
  item_id :: jsstring
  item_title :: "jsstring option"
  item_url :: jsstring
  item_credibility :: "real option"

record Brand =
  brand_id :: jsstring
  brand_name :: jsstring

record Monitor =
  monitor_id :: jsstring
  monitor_name :: jsstring
  monitor_keywords :: "jsstring list"
  monitor_sentimentThreshold :: real
  monitor_viralityThreshold :: real

record DetectedPost =
  post_id :: jsstring
  post_monitorId :: jsstring
  post_brandId :: jsstring
  post_externalPostId :: "jsstring option"
  post_platform :: jsstring
  post_content :: jsstring
  post_authorHandle :: jsstring
  post_authorId :: "jsstring option"
  post_likeCount :: int
  post_retweetCount :: int
  post_replyCount :: int
  post_viewCount :: int
  post_viralScore :: real
  post_engagementRate :: real
  post_sentimentPolarity :: real
  post_emotionalTone :: jsstring
  post_matchedKeywords :: "jsstring list"
  post_postedAt :: int
  post_capturedAt :: int
  post_isFlagged :: bool
  post_flagReason :: "jsstring option"

text \<open>
  The verification columns hold what \<open>verifyThreat\<close> hands to the update: the status and
  the summary are whatever values the judge's reply carried, so they are \<open>json\<close> values.
\<close>

record Threat =
  threat_id :: jsstring
  threat_detectedPostId :: jsstring
  threat_brandId :: jsstring
  threat_monitorId :: jsstring
  threat_severity :: ThreatSeverity
  threat_threatType :: ThreatType
  threat_status :: ThreatStatus
  threat_threatScore :: real
  threat_sentimentImpact :: real
  threat_viralityImpact :: real
  threat_credibilityImpact :: real
  threat_analysisReasons :: "jsstring list"
  threat_predictedReach :: "int option"
  threat_verificationStatus :: "json option"
  threat_verificationConfidence :: "jsnum option"
  threat_verificationSummary :: "json option"
  threat_verificationEvidenceIds :: "jsstring list option"

record Response =
  resp_id :: jsstring
  resp_threatId :: jsstring
  resp_platform :: jsstring
  resp_content :: jsstring
  resp_sourcesUsed :: "jsstring list"
  resp_confidence :: jsnum
  resp_status :: ResponseStatus
  resp_autoGenerated :: bool
  resp_postedAt :: "int option"

section \<open>Effects\<close>

text \<open>The events handed to the dashboard broadcaster, with their payloads.\<close>

datatype ws_event =
    response_ready jsstring jsstring jsstring jsnum "jsstring list"
  | response_posted jsstring jsstring int
  | response_failed jsstring jsstring jsstring
  | verification_complete jsstring jsstring jsstring
  | verification_failed jsstring jsstring jsstring

text \<open>The requests sent to the judgment oracle (Groq), and to the X-clone endpoint.\<close>

datatype oracle_request =
    judge_request jsstring jsstring
  | correction_request jsstring jsstring

record http_request =
  req_url :: jsstring
  req_text :: jsstring
  req_quote_tweet :: jsstring
  req_language :: jsstring
  req_is_konfam_response :: bool

record job =
  job_name :: jsstring
  job_threatId :: jsstring
  job_autopost :: bool

text \<open>
  The state the services act on: the tables, the module variable \<open>wsBroadcast\<close> (bound by
  \<open>bindWsBroadcaster\<close> or still \<open>null\<close>), and the trace of what left the process.
\<close>

record world =
  threats :: "Threat list"
  posts :: "DetectedPost list"
  brands :: "Brand list"
  monitors :: "Monitor list"
  responses :: "Response list"
  ws_bound :: bool
  ws_events :: "ws_event list"
  oracle_log :: "oracle_request list"
  http_log :: "http_request list"
  queue :: "job list"

text \<open>What a chat completion call gives: it throws, or the text of the first choice (if any).\<close>

datatype completion = CallThrows js_error | Completion "jsstring option"

text \<open>What \<open>fetch\<close> gives: it throws, or a status code and the outcome of reading the body.\<close>

datatype fetch_outcome = FetchThrows js_error | Fetched nat "js_error + jsstring"

text \<open>
  The replies of the outside world during one run: the evidence store's answers, the
  oracle's, \<open>JSON.parse\<close> and the number conversion of the runtime, the target platform's,
  the identifiers the database generates, the clock and \<open>Math.random\<close>, the outcome of
  the sentiment analysis of a post (score in \<open>[-1, 1]\<close>, tone, summary: from the oracle or
  from the local lexicon) and \<open>String.prototype.toLowerCase\<close>. Failures of the database
  connection itself are not modelled.
\<close>

record env =
  evidence_query :: "jsstring \<Rightarrow> jsstring \<Rightarrow> ScrapedItem list"
  evidence_by_ids :: "jsstring list \<Rightarrow> ScrapedItem list"
  judge_reply :: completion
  correction_reply :: completion
  JSON_parse :: "jsstring \<Rightarrow> js_error + json"
  StringToNumber :: "json \<Rightarrow> jsnum"
  fetch_reply :: fetch_outcome
  XCLONE_API_URL :: jsstring
  new_post_id :: jsstring
  new_threat_id :: jsstring
  new_response_id :: jsstring
  clock :: int
  Math_random :: real
  sentiment_analysis :: "real \<times> jsstring \<times> jsstring"
  toLowerCase :: "jsstring \<Rightarrow> jsstring"

text \<open>\<open>wsBroadcast?.(event, payload)\<close>\<close>

definition wsBroadcast :: "world \<Rightarrow> ws_event \<Rightarrow> world" where
  "wsBroadcast w e = (if ws_bound w then w\<lparr>ws_events := ws_events w @ [e]\<rparr> else w)"

section \<open>Verification engine\<close>

record verdict =
  v_verificationStatus :: json
  v_verificationConfidence :: jsnum
  v_verificationSummary :: json
  v_evidenceIds :: "jsstring list"

text \<open>The \<open>try\<close> block of \<open>verifyThreat\<close>: the judge call, the parse and the three reads.\<close>

definition judge :: "env \<Rightarrow> js_error + (json \<times> jsnum \<times> json)" where
  "judge e =
     (case judge_reply e of
        CallThrows err \<Rightarrow> Inl err
      | Completion c \<Rightarrow>
          let raw = (case c of None \<Rightarrow> [] | Some s \<Rightarrow> trim s) in
          (case JSON_parse e raw of
             Inl err \<Rightarrow> Inl err
           | Inr parsed \<Rightarrow>
               (case get_prop parsed (js ''verdict'') of
                  Inl err \<Rightarrow> Inl err
                | Inr pv \<Rightarrow>
                    let verificationStatus =
                          (case pv of None \<Rightarrow> JStr (js ''UNVERIFIED'')
                                    | Some JNull \<Rightarrow> JStr (js ''UNVERIFIED'')
                                    | Some x \<Rightarrow> x) in
                    (case get_prop parsed (js ''confidence'') of
                       Inl err \<Rightarrow> Inl err
                     | Inr pc \<Rightarrow>
                         let verificationConfidence =
                               Math_max (Fin 0)
                                 (Math_min (Fin 100) (num_or (Number (StringToNumber e) pc) 60)) in
                         (case get_prop parsed (js ''reason'') of
                            Inl err \<Rightarrow> Inl err
                          | Inr pr \<Rightarrow>
                              let verificationSummary =
                                    (case pr of
                                       None \<Rightarrow> JStr (js ''LLM judge summary'')
                                     | Some x \<Rightarrow> if truthy x then x
                                                 else JStr (js ''LLM judge summary'')) in
                              Inr (verificationStatus, verificationConfidence,
                                   verificationSummary))))))"

definition find_threat :: "world \<Rightarrow> jsstring \<Rightarrow> Threat option" where
  "find_threat w tid = find (\<lambda>t. threat_id t = tid) (threats w)"

definition find_post :: "world \<Rightarrow> jsstring \<Rightarrow> DetectedPost option" where
  "find_post w pid = find (\<lambda>p. post_id p = pid) (posts w)"

definition find_brand :: "world \<Rightarrow> jsstring \<Rightarrow> Brand option" where
  "find_brand w bid = find (\<lambda>b. brand_id b = bid) (brands w)"

definition find_response :: "world \<Rightarrow> jsstring \<Rightarrow> Response option" where
  "find_response w rid = find (\<lambda>r. resp_id r = rid) (responses w)"

text \<open>\<open>prisma.threat.update({ where: { id }, data })\<close>\<close>

definition update_threat :: "world \<Rightarrow> jsstring \<Rightarrow> (Threat \<Rightarrow> Threat) \<Rightarrow> world" where
  "update_threat w tid f = w\<lparr>threats := map (\<lambda>t. if threat_id t = tid then f t else t) (threats w)\<rparr>"

text \<open>
  \<open>prisma.scrapedItem.findMany\<close> of \<open>verifyThreat\<close>: the brand's items whose title or content
  contains the keyword, newest first, at most 15 of them.
\<close>

definition findMany_scraped :: "env \<Rightarrow> jsstring \<Rightarrow> jsstring \<Rightarrow> ScrapedItem list" where
  "findMany_scraped e brandId keyword = take 15 (evidence_query e brandId keyword)"

text \<open>
  \<open>scraped.filter((s) => (s.credibility ?? 0.5) >= 0.7)\<close>; the literal \<open>0.7\<close> is the double
  nearest to it.
\<close>

definition credible_items :: "ScrapedItem list \<Rightarrow> ScrapedItem list" where
  "credible_items scraped =
     filter (\<lambda>s. (case item_credibility s of None \<Rightarrow> 0.5 | Some c \<Rightarrow> c) \<ge> binary64 0.7)
            scraped"

definition headlines_of :: "ScrapedItem list \<Rightarrow> jsstring" where
  "headlines_of credible =
     join nl (map (\<lambda>s. js ''- '' @ (case item_title s of None \<Rightarrow> item_url s | Some t \<Rightarrow> t))
                  (take 5 credible))"

definition verifyThreat :: "env \<Rightarrow> world \<Rightarrow> jsstring \<Rightarrow> (js_error + verdict) \<times> world" where
  "verifyThreat e w threatId =
     (case find_threat w threatId of
        None \<Rightarrow> (Inl (Error (js ''Threat not found'')), w)
      | Some threat \<Rightarrow>
          (case find_post w (threat_detectedPostId threat) of
             None \<Rightarrow> (Inl (TypeError (js ''Cannot read properties of null (reading '' @ [0x27] @ js ''content'' @ [0x27] @ js '')'')), w)
           | Some detectedPost \<Rightarrow>
               let claim = post_content detectedPost;
                   brandId = threat_brandId threat;
                   scraped = findMany_scraped e brandId (firstKeyword claim);
                   credible = credible_items scraped;
                   evidenceIds = map item_id scraped;
                   (w1, verificationStatus, verificationConfidence, verificationSummary) =
                     (if length scraped = 0 then
                        (w, JStr (js ''UNVERIFIED''), Fin 35,
                         JStr (js ''No relevant coverage found among trusted sources.''))
                      else if length credible = 0 then
                        (w, JStr (js ''FALSE''), Fin 80,
                         JStr (js ''No trusted outlet confirms this claim; appears unsubstantiated.''))
                      else
                        let wj = w\<lparr>oracle_log :=
                                     oracle_log w @ [judge_request claim (headlines_of credible)]\<rparr>
                        in (case judge e of
                              Inr (st, cf, sm) \<Rightarrow> (wj, st, cf, sm)
                            | Inl err \<Rightarrow>
                                (wj, JStr (js ''UNVERIFIED''), Fin 60, JStr (js ''Judge fallback''))));
                   w2 = update_threat w1 threatId
                          (\<lambda>t. t\<lparr>threat_verificationStatus := Some verificationStatus,
                                 threat_verificationConfidence := Some verificationConfidence,
                                 threat_verificationSummary := Some verificationSummary,
                                 threat_verificationEvidenceIds := Some evidenceIds\<rparr>)
               in (Inr \<lparr>v_verificationStatus = verificationStatus,
                        v_verificationConfidence = verificationConfidence,
                        v_verificationSummary = verificationSummary,
                        v_evidenceIds = evidenceIds\<rparr>, w2)))"

text \<open>
  Two kinds of reply on which \<open>verifyThreat\<close> ends with its defaults. \<open>judge_raw\<close> is the
  text handed to \<open>JSON.parse\<close>, if the call returned. \<open>judge_throws\<close>: the \<open>try\<close> block throws,
  because the call throws, the text does not parse, or it parses to \<open>null\<close> (whose members
  cannot be read). \<open>judge_memberless\<close>: the text parses to a value that has none of the
  members \<open>verdict\<close>, \<open>confidence\<close>, \<open>reason\<close>. A reply that parses and has a member of the
  wrong type or outside the expected vocabulary is of neither kind.
\<close>

definition judge_raw :: "env \<Rightarrow> jsstring option" where
  "judge_raw e =
     (case judge_reply e of
        CallThrows err \<Rightarrow> None
      | Completion c \<Rightarrow> Some (case c of None \<Rightarrow> [] | Some s \<Rightarrow> trim s))"

definition judge_throws :: "env \<Rightarrow> bool" where
  "judge_throws e =
     (case judge_raw e of
        None \<Rightarrow> True
      | Some raw \<Rightarrow> (case JSON_parse e raw of Inl err \<Rightarrow> True | Inr parsed \<Rightarrow> parsed = JNull))"

definition judge_memberless :: "env \<Rightarrow> bool" where
  "judge_memberless e =
     (case judge_raw e of
        None \<Rightarrow> False
      | Some raw \<Rightarrow>
          (case JSON_parse e raw of
             Inl err \<Rightarrow> False
           | Inr parsed \<Rightarrow>
               get_prop parsed (js ''verdict'') = Inr None \<and>
               get_prop parsed (js ''confidence'') = Inr None \<and>
               get_prop parsed (js ''reason'') = Inr None))"

text \<open>The threat row after a verdict has been written to it.\<close>

definition set_verification :: "verdict \<Rightarrow> Threat \<Rightarrow> Threat" where
  "set_verification v t =
     t\<lparr>threat_verificationStatus := Some (v_verificationStatus v),
       threat_verificationConfidence := Some (v_verificationConfidence v),
       threat_verificationSummary := Some (v_verificationSummary v),
       threat_verificationEvidenceIds := Some (v_evidenceIds v)\<rparr>"

section \<open>Response synthesizer\<close>

definition verifiedSourcesHTML :: "jsstring list \<Rightarrow> jsstring" where
  "verifiedSourcesHTML sourcesUsed =
     (if length sourcesUsed > 0 then
        js ''<ul>'' @
        join [] (map (\<lambda>src. js ''<li><a href=\"'' @ src @ js ''\" target=\"_blank\">'' @ src @
                            js ''</a></li>'') sourcesUsed) @
        js ''</ul>''
      else js ''<p>No verified press sources available yet.</p>'')"

text \<open>
  \<open>completion.choices[0]?.message?.content?.trim() || `${brandName}: This claim ...`\<close>:
  the oracle's text trimmed, or the templated sentence when there is none or it is empty.
\<close>

definition correction_text :: "jsstring \<Rightarrow> jsstring option \<Rightarrow> jsstring" where
  "correction_text brandName c =
     (case map_option trim c of
        Some (x # xs) \<Rightarrow> x # xs
      | _ \<Rightarrow> brandName @ js '': This claim is incorrect. Operations remain normal.'')"

text \<open>\<open>if (rawContent.length > 580) rawContent = rawContent.slice(0, 580) + "\<dots>"\<close>\<close>

definition enforce_limit :: "jsstring \<Rightarrow> jsstring" where
  "enforce_limit rawContent =
     (if length rawContent > 580 then take 580 rawContent @ ellipsis else rawContent)"

text \<open>
  The HTML template around the correction text: \<open>html_footer\<close> is its fixed part between
  the correction text and the rendered source list.
\<close>

definition html_footer :: jsstring where
  "html_footer =
     js ''</p>'' @ nl @
     nl @
     js ''<br/>'' @ nl @
     nl @
     js ''<p>'' @ nl @
     js ''  For instant support, please chat with '' @ nl @
     js ''  <span style=\"color:#007bff;font-weight:600;\">Zenith Bank'' @ [0x2019] @
       js ''s official assistant, ZiVA</span>,'' @ nl @
     js ''  on WhatsApp at '' @ nl @
     js ''  <a href=\"https://wa.me/2347040004422\" style=\"color:#007bff;font-weight:600;\">'' @ nl @
     js ''    07040004422'' @ nl @
     js ''  </a>.'' @ nl @
     js ''</p>'' @ nl @
     nl @
     js ''<br/>'' @ nl @
     nl @
     js ''<h4>Verified Sources</h4>'' @ nl"

definition html_template :: "jsstring \<Rightarrow> jsstring \<Rightarrow> jsstring" where
  "html_template rawContent sourcesHTML =
     nl @ js ''<p>'' @ rawContent @ html_footer @ sourcesHTML @ nl @ js ''  ''"

text \<open>\<open>`...`.trim()\<close>\<close>

definition htmlContent :: "jsstring \<Rightarrow> jsstring \<Rightarrow> jsstring" where
  "htmlContent rawContent sourcesHTML = trim (html_template rawContent sourcesHTML)"

text \<open>\<open>prisma.response.upsert({ where: { threatId }, update, create })\<close>\<close>

definition upsert_response ::
  "world \<Rightarrow> jsstring \<Rightarrow> (Response \<Rightarrow> Response) \<Rightarrow> Response \<Rightarrow> Response \<times> world" where
  "upsert_response w threatId upd created =
     (case find (\<lambda>r. resp_threatId r = threatId) (responses w) of
        Some r \<Rightarrow>
          (upd r,
           w\<lparr>responses := map (\<lambda>x. if resp_threatId x = threatId then upd x else x) (responses w)\<rparr>)
      | None \<Rightarrow> (created, w\<lparr>responses := responses w @ [created]\<rparr>))"

definition generateResponseForFalse ::
  "env \<Rightarrow> world \<Rightarrow> jsstring \<Rightarrow> (js_error + Response) \<times> world" where
  "generateResponseForFalse e w threatId =
     (case find_threat w threatId of
        None \<Rightarrow> (Inl (Error (js ''Threat not found'')), w)
      | Some threat \<Rightarrow>
          (case find_post w (threat_detectedPostId threat) of
             None \<Rightarrow> (Inl (TypeError (js ''Cannot read properties of null (reading '' @ [0x27] @ js ''content'' @ [0x27] @ js '')'')), w)
           | Some detectedPost \<Rightarrow>
               (case find_brand w (threat_brandId threat) of
                  None \<Rightarrow> (Inl (TypeError (js ''Cannot read properties of null (reading '' @ [0x27] @ js ''name'' @ [0x27] @ js '')'')), w)
                | Some brand \<Rightarrow>
                    let claim = post_content detectedPost;
                        brandName = brand_name brand;
                        evidence =
                          take 3 (evidence_by_ids e
                                    (case threat_verificationEvidenceIds threat of
                                       None \<Rightarrow> [] | Some ids \<Rightarrow> ids));
                        sourcesUsed = map item_url evidence;
                        w1 = w\<lparr>oracle_log := oracle_log w @ [correction_request brandName claim]\<rparr>
                    in (case correction_reply e of
                          CallThrows err \<Rightarrow> (Inl err, w1)
                        | Completion c \<Rightarrow>
                            let rawContent = enforce_limit (correction_text brandName c);
                                content = htmlContent rawContent (verifiedSourcesHTML sourcesUsed);
                                confidence =
                                  (case threat_verificationConfidence threat of
                                     None \<Rightarrow> Fin 80 | Some n \<Rightarrow> n);
                                (response, w2) =
                                  upsert_response w1 threatId
                                    (\<lambda>r. r\<lparr>resp_content := content,
                                           resp_sourcesUsed := sourcesUsed,
                                           resp_confidence := confidence,
                                           resp_status := PENDING,
                                           resp_autoGenerated := True\<rparr>)
                                    \<lparr>resp_id = new_response_id e,
                                     resp_threatId = threatId,
                                     resp_platform = post_platform detectedPost,
                                     resp_content = content,
                                     resp_sourcesUsed = sourcesUsed,
                                     resp_confidence = confidence,
                                     resp_status = PENDING,
                                     resp_autoGenerated = True,
                                     resp_postedAt = None\<rparr>;
                                w3 = wsBroadcast w2
                                       (response_ready threatId (resp_id response)
                                          (take 240 rawContent) (resp_confidence response)
                                          sourcesUsed)
                            in (Inr response, w3)))))"

section \<open>Publisher\<close>

text \<open>\<open>prisma.response.update({ where: { id }, data })\<close>\<close>

definition update_response :: "world \<Rightarrow> jsstring \<Rightarrow> (Response \<Rightarrow> Response) \<Rightarrow> world" where
  "update_response w rid f =
     w\<lparr>responses := map (\<lambda>r. if resp_id r = rid then f r else r) (responses w)\<rparr>"

text \<open>\<open>res.ok\<close> of a fetch response.\<close>

definition res_ok :: "nat \<Rightarrow> bool" where
  "res_ok status \<longleftrightarrow> 200 \<le> status \<and> status < 300"

text \<open>The \<open>try\<close> block of \<open>postResponseToXClone\<close>, after the request has been sent.\<close>

definition post_attempt :: "env \<Rightarrow> world \<Rightarrow> jsstring \<Rightarrow> Response \<Rightarrow> (js_error + unit) \<times> world" where
  "post_attempt e w responseId response =
     (case fetch_reply e of
        FetchThrows err \<Rightarrow> (Inl err, w)
      | Fetched status body \<Rightarrow>
          (case body of
             Inl err \<Rightarrow> (Inl err, w)
           | Inr text \<Rightarrow>
               if \<not> res_ok status then (Inl (Error (js ''X-clone response: '' @ text)), w)
               else
                 let w1 = update_response w responseId
                            (\<lambda>r. r\<lparr>resp_status := POSTED, resp_postedAt := Some (clock e)\<rparr>);
                     w2 = wsBroadcast w1
                            (response_posted responseId (resp_threatId response) (clock e))
                 in (Inr (), w2)))"

definition postResponseToXClone :: "env \<Rightarrow> world \<Rightarrow> jsstring \<Rightarrow> (js_error + unit) \<times> world" where
  "postResponseToXClone e w responseId =
     (case find_response w responseId of
        None \<Rightarrow> (Inl (Error (js ''Response not found'')), w)
      | Some response \<Rightarrow>
          (case find_threat w (resp_threatId response) of
             None \<Rightarrow> (Inl (Error (js ''Detected post not found for threat'')), w)
           | Some threat \<Rightarrow>
               (case find_post w (threat_detectedPostId threat) of
                  None \<Rightarrow>
                    (Inl (TypeError (js ''Cannot read properties of null (reading '' @ [0x27] @ js ''externalPostId'' @ [0x27] @ js '')'')), w)
                | Some target \<Rightarrow>
                    (case post_externalPostId target of
                       None \<Rightarrow> (Inl (Error (js ''Detected post not found for threat'')), w)
                     | Some [] \<Rightarrow> (Inl (Error (js ''Detected post not found for threat'')), w)
                     | Some (c # cs) \<Rightarrow>
                         let detectedPostId = c # cs;
                             payload =
                               \<lparr>req_url = XCLONE_API_URL e @ js ''/api/twitter/tweets'',
                                req_text = js ''@'' @ post_authorHandle target @ js '' '' @
                                           resp_content response,
                                req_quote_tweet = detectedPostId,
                                req_language = js ''ENGLISH'',
                                req_is_konfam_response = True\<rparr>;
                             w1 = w\<lparr>http_log := http_log w @ [payload]\<rparr>
                         in (case post_attempt e w1 responseId response of
                               (Inr u, w2) \<Rightarrow> (Inr u, w2)
                             | (Inl err, w2) \<Rightarrow>
                                 let w3 = update_response w2 responseId
                                            (\<lambda>r. r\<lparr>resp_status := FAILED\<rparr>);
                                     w4 = wsBroadcast w3
                                            (response_failed responseId (resp_threatId response)
                                               (message err))
                                 in (Inl err, w4))))))"

section \<open>Orchestrator and worker\<close>

datatype handle_result = responded jsstring | no_response_needed json

fun verified :: "handle_result \<Rightarrow> bool" where
  "verified (responded responseId) = False"
| "verified (no_response_needed status) = True"

definition handleThreatVerifyRespond ::
  "env \<Rightarrow> world \<Rightarrow> jsstring \<Rightarrow> bool \<Rightarrow> (js_error + handle_result) \<times> world" where
  "handleThreatVerifyRespond e w threatId autopost =
     (case verifyThreat e w threatId of
        (Inl err, w1) \<Rightarrow> (Inl err, w1)
      | (Inr v, w1) \<Rightarrow>
          let verificationStatus = v_verificationStatus v in
          if verificationStatus = JStr (js ''FALSE'') \<or> verificationStatus = JStr (js ''UNVERIFIED'')
          then
            (case generateResponseForFalse e w1 threatId of
               (Inl err, w2) \<Rightarrow> (Inl err, w2)
             | (Inr resp, w2) \<Rightarrow>
                 if autopost then
                   (case postResponseToXClone e w2 (resp_id resp) of
                      (Inl err, w3) \<Rightarrow> (Inl err, w3)
                    | (Inr u, w3) \<Rightarrow> (Inr (responded (resp_id resp)), w3))
                 else (Inr (responded (resp_id resp)), w2))
          else
            (Inr (no_response_needed verificationStatus),
             wsBroadcast w1
               (verification_complete threatId (js ''VERIFIED_TRUE'')
                  ([0x2705] @ js '' Verified as true '' @ [0x2014] @ js '' no response needed''))))"

datatype job_return = ok_result handle_result | error_result jsstring | ok_plain

text \<open>
  The processor of \<open>verificationWorker\<close>. \<open>result.verified\<close> is always a boolean, so the
  third branch of the source (an unknown result) has no input that reaches it.
\<close>

definition verificationWorker :: "env \<Rightarrow> world \<Rightarrow> job \<Rightarrow> (js_error + job_return) \<times> world" where
  "verificationWorker e w j =
     (if job_name j = js ''verify-one'' then
        (case handleThreatVerifyRespond e w (job_threatId j) (job_autopost j) of
           (Inr result, w1) \<Rightarrow>
             (Inr (ok_result result),
              if verified result then
                wsBroadcast w1
                  (verification_complete (job_threatId j) (js ''VERIFIED_TRUE'')
                     ([0x2705] @ js '' Verified as true information''))
              else
                wsBroadcast w1
                  (verification_complete (job_threatId j) (js ''MISINFORMATION'')
                     ([0x26A0, 0xFE0F] @ js '' Misinformation detected '' @ [0x2014] @
                      js '' AI response generated'')))
         | (Inl err, w1) \<Rightarrow>
             (Inr (error_result (message err)),
              wsBroadcast w1
                (verification_failed (job_threatId j) (js ''ERROR'')
                   ([0x274C] @ js '' Verification failed: '' @ message err))))
      else (Inr ok_plain, w))"

text \<open>
  \<open>verificationQueue\<close>: the default job options.
\<close>

definition verificationQueue_attempts :: nat where
  "verificationQueue_attempts = 3"

definition verificationQueue_backoff_delay :: nat where
  "verificationQueue_backoff_delay = 3000"

text \<open>
  BullMQ is a dependency, not code of this repository. Its documented treatment of a job is
  written out here: the processor is run; if it returns, the job is completed with the
  returned value; if it throws and fewer than \<open>attempts\<close> attempts have been made, the job
  waits \<open>delay * 2 ^ (attemptsMade - 1)\<close> milliseconds and is run again; otherwise it is
  moved to the failed set with the error. \<open>envs n\<close> are the replies of the outside world
  during attempt \<open>n\<close> (counted from 0), \<open>retries\<close> the attempts left after the current one.
\<close>

datatype job_state = completed job_return | failed js_error

record job_run =
  run_state :: job_state
  run_attemptsMade :: nat
  run_waits :: "nat list"
  run_world :: world

fun run_attempts :: "(nat \<Rightarrow> env) \<Rightarrow> job \<Rightarrow> nat \<Rightarrow> nat list \<Rightarrow> world \<Rightarrow> nat \<Rightarrow> job_run" where
  "run_attempts envs j made waits w 0 =
     (case verificationWorker (envs made) w j of
        (Inr r, w1) \<Rightarrow>
          \<lparr>run_state = completed r, run_attemptsMade = Suc made, run_waits = waits,
           run_world = w1\<rparr>
      | (Inl err, w1) \<Rightarrow>
          \<lparr>run_state = failed err, run_attemptsMade = Suc made, run_waits = waits,
           run_world = w1\<rparr>)"
| "run_attempts envs j made waits w (Suc retries) =
     (case verificationWorker (envs made) w j of
        (Inr r, w1) \<Rightarrow>
          \<lparr>run_state = completed r, run_attemptsMade = Suc made, run_waits = waits,
           run_world = w1\<rparr>
      | (Inl err, w1) \<Rightarrow>
          run_attempts envs j (Suc made)
            (waits @ [verificationQueue_backoff_delay * 2 ^ made]) w1 retries)"

definition run_verify_job :: "(nat \<Rightarrow> env) \<Rightarrow> job \<Rightarrow> world \<Rightarrow> job_run" where
  "run_verify_job envs j w = run_attempts envs j 0 [] w (verificationQueue_attempts - 1)"

section \<open>Scoring engine and threat builder\<close>

record post_data =
  data_monitorId :: jsstring
  data_brandId :: jsstring
  data_externalPostId :: jsstring
  data_platform :: jsstring
  data_content :: jsstring
  data_authorHandle :: jsstring
  data_authorId :: "jsstring option"
  data_likeCount :: int
  data_retweetCount :: int
  data_replyCount :: int
  data_viewCount :: int
  data_postedAt :: int

text \<open>
  Step 2 of \<open>detectAndStorePost\<close>, the virality estimation. The counters are integers; each
  addition, division and multiplication of the source is one rounded operation, in the
  order JavaScript evaluates them.
\<close>

definition totalEngagement :: "post_data \<Rightarrow> real" where
  "totalEngagement d =
     binary64 (binary64 (real_of_int (data_likeCount d) + real_of_int (data_retweetCount d))
               + real_of_int (data_replyCount d))"

definition engagementRate :: "post_data \<Rightarrow> real" where
  "engagementRate d =
     (if data_viewCount d > 0 then binary64 (totalEngagement d / real_of_int (data_viewCount d))
      else 0)"

definition viralScore :: "post_data \<Rightarrow> real" where
  "viralScore d =
     min 100 (binary64 (binary64 (engagementRate d * 100)
                        * binary64 (1 + binary64 (real_of_int (data_retweetCount d) * 0.5))))"

text \<open>\<open>prisma.detectedPost.upsert\<close>, keyed by the external post id and the platform.\<close>

definition upsert_post ::
  "world \<Rightarrow> jsstring \<Rightarrow> jsstring \<Rightarrow> (DetectedPost \<Rightarrow> DetectedPost) \<Rightarrow> DetectedPost \<Rightarrow>
   DetectedPost \<times> world" where
  "upsert_post w ext platform upd created =
     (let same = (\<lambda>p. post_externalPostId p = Some ext \<and> post_platform p = platform) in
      case find same (posts w) of
        Some p \<Rightarrow> (upd p, w\<lparr>posts := map (\<lambda>x. if same x then upd x else x) (posts w)\<rparr>)
      | None \<Rightarrow> (created, w\<lparr>posts := posts w @ [created]\<rparr>))"

text \<open>\<open>prisma.threat.upsert\<close>, keyed by the owning detected post.\<close>

definition upsert_threat ::
  "world \<Rightarrow> jsstring \<Rightarrow> (Threat \<Rightarrow> Threat) \<Rightarrow> Threat \<Rightarrow> Threat \<times> world" where
  "upsert_threat w detectedPostId upd created =
     (case find (\<lambda>t. threat_detectedPostId t = detectedPostId) (threats w) of
        Some t \<Rightarrow>
          (upd t,
           w\<lparr>threats := map (\<lambda>x. if threat_detectedPostId x = detectedPostId then upd x else x)
                            (threats w)\<rparr>)
      | None \<Rightarrow> (created, w\<lparr>threats := threats w @ [created]\<rparr>))"

text \<open>
  The local variables of \<open>detectAndStorePost\<close> after its steps 1 to 4: the sentiment
  analysis and the trigger conditions of the monitor.
\<close>

record detection =
  sentimentScore :: real
  sentimentTone :: jsstring
  sentimentSummary :: jsstring
  matchedKeywords :: "jsstring list"
  sentimentTrigger :: bool
  viralityTrigger :: bool
  keywordTrigger :: bool

definition detect :: "env \<Rightarrow> Monitor \<Rightarrow> post_data \<Rightarrow> detection" where
  "detect e monitor d =
     (let (score, tone, summary) = sentiment_analysis e;
          lower = toLowerCase e (data_content d);
          matched = filter (\<lambda>kw. str_includes lower (toLowerCase e kw)) (monitor_keywords monitor)
      in \<lparr>sentimentScore = score, sentimentTone = tone, sentimentSummary = summary,
          matchedKeywords = matched,
          sentimentTrigger = (score \<le> monitor_sentimentThreshold monitor),
          viralityTrigger = (viralScore d \<ge> monitor_viralityThreshold monitor),
          keywordTrigger = (length matched > 0)\<rparr>)"

definition triggered :: "detection \<Rightarrow> bool" where
  "triggered a \<longleftrightarrow> sentimentTrigger a \<or> viralityTrigger a \<or> keywordTrigger a"

text \<open>The \<open>update\<close> and \<open>create\<close> data of the detected post's upsert.\<close>

definition post_update :: "env \<Rightarrow> post_data \<Rightarrow> detection \<Rightarrow> DetectedPost \<Rightarrow> DetectedPost" where
  "post_update e d a p =
     p\<lparr>post_content := data_content d,
       post_sentimentPolarity := sentimentScore a,
       post_viralScore := viralScore d,
       post_engagementRate := engagementRate d,
       post_emotionalTone := sentimentTone a,
       post_matchedKeywords := matchedKeywords a,
       post_likeCount := data_likeCount d,
       post_retweetCount := data_retweetCount d,
       post_replyCount := data_replyCount d,
       post_viewCount := data_viewCount d,
       post_capturedAt := clock e,
       post_isFlagged := triggered a,
       post_flagReason :=
         (if triggered a then
            Some (js ''Triggered by '' @
                  (if sentimentTrigger a then js ''sentiment''
                   else if viralityTrigger a then js ''virality''
                   else js ''keywords''))
          else None)\<rparr>"

definition post_create :: "env \<Rightarrow> post_data \<Rightarrow> detection \<Rightarrow> DetectedPost" where
  "post_create e d a =
     \<lparr>post_id = new_post_id e,
      post_monitorId = data_monitorId d,
      post_brandId = data_brandId d,
      post_externalPostId = Some (data_externalPostId d),
      post_platform = data_platform d,
      post_content = data_content d,
      post_authorHandle = data_authorHandle d,
      post_authorId = data_authorId d,
      post_likeCount = data_likeCount d,
      post_retweetCount = data_retweetCount d,
      post_replyCount = data_replyCount d,
      post_viewCount = data_viewCount d,
      post_viralScore = viralScore d,
      post_engagementRate = engagementRate d,
      post_sentimentPolarity = sentimentScore a,
      post_emotionalTone = sentimentTone a,
      post_matchedKeywords = matchedKeywords a,
      post_postedAt = data_postedAt d,
      post_capturedAt = clock e,
      post_isFlagged = triggered a,
      post_flagReason = None\<rparr>"

text \<open>Step 6: the threat score, its severity band, the threat type and the reason trail.\<close>

definition threatScore :: "post_data \<Rightarrow> detection \<Rightarrow> real" where
  "threatScore d a =
     min 100 (binary64 (binary64 (\<bar>binary64 (sentimentScore a * 60)\<bar>
                                  + binary64 (viralScore d * binary64 0.8))
                        + (if keywordTrigger a then 10 else 0)))"

definition severity :: "post_data \<Rightarrow> detection \<Rightarrow> ThreatSeverity" where
  "severity d a =
     (if threatScore d a \<ge> 80 then CRITICAL
      else if threatScore d a \<ge> 60 then HIGH
      else if threatScore d a \<ge> 40 then MEDIUM
      else LOW)"

definition threatType :: "detection \<Rightarrow> ThreatType" where
  "threatType a =
     (if sentimentTrigger a \<and> keywordTrigger a then NEGATIVE_SENTIMENT
      else if viralityTrigger a then VIRAL_RISK
      else CRISIS)"

definition reasons :: "detection \<Rightarrow> jsstring list" where
  "reasons a =
     (if length (matchedKeywords a) > 0 then matchedKeywords a else []) @
     [sentimentTone a @ js '' tone detected'', sentimentSummary a]"

text \<open>The \<open>update\<close> and \<open>create\<close> data of the threat's upsert.\<close>

definition threat_update :: "env \<Rightarrow> post_data \<Rightarrow> detection \<Rightarrow> Threat \<Rightarrow> Threat" where
  "threat_update e d a t =
     t\<lparr>threat_severity := severity d a,
       threat_threatType := threatType a,
       threat_threatScore := threatScore d a,
       threat_sentimentImpact := \<bar>binary64 (sentimentScore a * 100)\<bar>,
       threat_viralityImpact := viralScore d,
       threat_credibilityImpact := binary64 (50 + binary64 (Math_random e * 30)),
       threat_analysisReasons := reasons a,
       threat_status := NEW\<rparr>"

definition threat_create :: "env \<Rightarrow> post_data \<Rightarrow> detection \<Rightarrow> DetectedPost \<Rightarrow> Threat" where
  "threat_create e d a detectedPost =
     \<lparr>threat_id = new_threat_id e,
      threat_detectedPostId = post_id detectedPost,
      threat_brandId = data_brandId d,
      threat_monitorId = data_monitorId d,
      threat_severity = severity d a,
      threat_threatType = threatType a,
      threat_status = NEW,
      threat_threatScore = threatScore d a,
      threat_sentimentImpact = \<bar>binary64 (sentimentScore a * 100)\<bar>,
      threat_viralityImpact = viralScore d,
      threat_credibilityImpact = binary64 (50 + binary64 (Math_random e * 30)),
      threat_analysisReasons = reasons a,
      threat_predictedReach = Some (data_viewCount d),
      threat_verificationStatus = None,
      threat_verificationConfidence = None,
      threat_verificationSummary = None,
      threat_verificationEvidenceIds = None\<rparr>"

text \<open>\<open>verificationQueue.add("verify-one", { threatId, autopost: false })\<close>\<close>

definition enqueue_verification :: "world \<Rightarrow> jsstring \<Rightarrow> world" where
  "enqueue_verification w threatId =
     w\<lparr>queue := queue w @
                 [\<lparr>job_name = js ''verify-one'', job_threatId = threatId, job_autopost = False\<rparr>]\<rparr>"

definition detectAndStorePost :: "env \<Rightarrow> world \<Rightarrow> post_data \<Rightarrow> Threat option \<times> world" where
  "detectAndStorePost e w d =
     (case find (\<lambda>m. monitor_id m = data_monitorId d) (monitors w) of
        None \<Rightarrow> (None, w)
      | Some monitor \<Rightarrow>
          let a = detect e monitor d;
              (detectedPost, w1) =
                upsert_post w (data_externalPostId d) (data_platform d)
                  (post_update e d a) (post_create e d a)
          in
          if triggered a then
            let (createdThreat, w2) =
                  upsert_threat w1 (post_id detectedPost)
                    (threat_update e d a) (threat_create e d a detectedPost);
                w3 = enqueue_verification w2 (threat_id createdThreat)
            in (Some createdThreat, w3)
          else (None, w1))"

text \<open>
  The virality formula as the specification words it, with \<open>max(views, 1)\<close> as the divisor,
  evaluated in the same arithmetic.
\<close>

definition spec_engagementRate :: "post_data \<Rightarrow> real" where
  "spec_engagementRate d =
     binary64 (totalEngagement d / real_of_int (max (data_viewCount d) 1))"

definition spec_viralScore :: "post_data \<Rightarrow> real" where
  "spec_viralScore d =
     min 100 (binary64 (binary64 (spec_engagementRate d * 100)
                        * binary64 (1 + binary64 (real_of_int (data_retweetCount d) * 0.5))))"

text \<open>The row of the detected-post table that an incoming post is keyed to.\<close>

definition same_post :: "post_data \<Rightarrow> DetectedPost \<Rightarrow> bool" where
  "same_post d p \<longleftrightarrow>
     post_externalPostId p = Some (data_externalPostId d) \<and> post_platform p = data_platform d"

section \<open>Sample data\<close>

definition sample_post :: DetectedPost where
  "sample_post =
     \<lparr>post_id = js ''p1'', post_monitorId = js ''m1'', post_brandId = js ''b1'',
      post_externalPostId = Some (js ''x1''), post_platform = js ''TWITTER'',
      post_content = js ''Zenith app is down nationwide'', post_authorHandle = js ''ada'',
      post_authorId = None, post_likeCount = 5, post_retweetCount = 2, post_replyCount = 1,
      post_viewCount = 100, post_viralScore = 16, post_engagementRate = 0.08,
      post_sentimentPolarity = -0.5, post_emotionalTone = js ''ANGER'',
      post_matchedKeywords = [], post_postedAt = 0, post_capturedAt = 0, post_isFlagged = True,
      post_flagReason = None\<rparr>"

definition sample_threat :: Threat where
  "sample_threat =
     \<lparr>threat_id = js ''t1'', threat_detectedPostId = js ''p1'', threat_brandId = js ''b1'',
      threat_monitorId = js ''m1'', threat_severity = MEDIUM,
      threat_threatType = NEGATIVE_SENTIMENT, threat_status = NEW, threat_threatScore = 42.8,
      threat_sentimentImpact = 50, threat_viralityImpact = 16, threat_credibilityImpact = 60,
      threat_analysisReasons = [], threat_predictedReach = Some 100,
      threat_verificationStatus = None, threat_verificationConfidence = None,
      threat_verificationSummary = None, threat_verificationEvidenceIds = None\<rparr>"

definition sample_monitor :: Monitor where
  "sample_monitor =
     \<lparr>monitor_id = js ''m1'', monitor_name = js ''Zenith'', monitor_keywords = [js ''down''],
      monitor_sentimentThreshold = -0.3, monitor_viralityThreshold = 50\<rparr>"

definition sample_world :: world where
  "sample_world =
     \<lparr>threats = [sample_threat], posts = [sample_post],
      brands = [\<lparr>brand_id = js ''b1'', brand_name = js ''Zenith Bank''\<rparr>],
      monitors = [sample_monitor], responses = [], ws_bound = True, ws_events = [],
      oracle_log = [], http_log = [], queue = []\<rparr>"

definition sample_response :: Response where
  "sample_response =
     \<lparr>resp_id = js ''r1'', resp_threatId = js ''t1'', resp_platform = js ''TWITTER'',
      resp_content = js ''This claim is incorrect.'', resp_sourcesUsed = [],
      resp_confidence = Fin 80, resp_status = PENDING, resp_autoGenerated = True,
      resp_postedAt = None\<rparr>"

definition weak_item :: ScrapedItem where
  "weak_item =
     \<lparr>item_id = js ''s1'', item_title = Some (js ''Zenith rumours''),
      item_url = js ''https://blog.example/1'', item_credibility = Some 0.4\<rparr>"

definition strong_item :: ScrapedItem where
  "strong_item =
     \<lparr>item_id = js ''s2'', item_title = Some (js ''Zenith services normal''),
      item_url = js ''https://news.example/2'', item_credibility = Some 0.9\<rparr>"

definition sample_data :: post_data where
  "sample_data =
     \<lparr>data_monitorId = js ''m1'', data_brandId = js ''b1'', data_externalPostId = js ''x1'',
      data_platform = js ''TWITTER'', data_content = js ''Zenith app is down nationwide'',
      data_authorHandle = js ''ada'', data_authorId = None, data_likeCount = 5,
      data_retweetCount = 2, data_replyCount = 1, data_viewCount = 100, data_postedAt = 0\<rparr>"

definition zero_view_data :: post_data where
  "zero_view_data = sample_data\<lparr>data_viewCount := 0\<rparr>"

text \<open>A post seen three times and retweeted once.\<close>

definition third_data :: post_data where
  "third_data =
     sample_data\<lparr>data_likeCount := 0, data_retweetCount := 1, data_replyCount := 0,
                 data_viewCount := 3\<rparr>"

text \<open>The sample threat after the dashboard has marked it addressed.\<close>

definition responded_world :: world where
  "responded_world = sample_world\<lparr>threats := [sample_threat\<lparr>threat_status := RESPONDED\<rparr>]\<rparr>"

definition sample_job :: job where
  "sample_job = \<lparr>job_name = js ''verify-one'', job_threatId = js ''t1'', job_autopost = False\<rparr>"

text \<open>An outside world with an empty evidence store, a failing oracle and a failing platform.\<close>

definition sample_env :: env where
  "sample_env =
     \<lparr>evidence_query = (\<lambda>brandId keyword. []),
      evidence_by_ids = (\<lambda>ids. []),
      judge_reply = CallThrows (Error (js ''timeout'')),
      correction_reply = CallThrows (Error (js ''timeout'')),
      JSON_parse = (\<lambda>s. Inl (SyntaxError (js ''Unexpected token''))),
      StringToNumber = (\<lambda>v. NaN),
      fetch_reply = FetchThrows (Error (js ''ECONNREFUSED'')),
      XCLONE_API_URL = js ''http://localhost:4000'',
      new_post_id = js ''p2'', new_threat_id = js ''t2'', new_response_id = js ''r2'',
      clock = 1000, Math_random = 0.5,
      sentiment_analysis = (-0.5, js ''ANGER'', js ''User is frustrated.''),
      toLowerCase = (\<lambda>s. s)\<rparr>"

definition weak_env :: env where
  "weak_env = sample_env\<lparr>evidence_query := (\<lambda>brandId keyword. [weak_item])\<rparr>"

definition strong_env :: env where
  "strong_env = sample_env\<lparr>evidence_query := (\<lambda>brandId keyword. [strong_item])\<rparr>"

definition maybe_env :: env where
  "maybe_env =
     sample_env
       \<lparr>evidence_query := (\<lambda>brandId keyword. [strong_item]),
        judge_reply := Completion (Some (js ''{\"verdict\":\"MAYBE\"}'')),
        JSON_parse := (\<lambda>s. if s = js ''{\"verdict\":\"MAYBE\"}''
                            then Inr (JObj [(js ''verdict'', JStr (js ''MAYBE''))])
                            else Inl (SyntaxError (js ''Unexpected token'')))\<rparr>"

text \<open>The judge replies with a verdict outside the three it was asked to choose from.\<close>

definition partly_env :: env where
  "partly_env =
     sample_env
       \<lparr>evidence_query := (\<lambda>brandId keyword. [strong_item]),
        judge_reply := Completion (Some (js ''{\"verdict\":\"PARTLY TRUE\",\"confidence\":90}'')),
        JSON_parse := (\<lambda>s. if s = js ''{\"verdict\":\"PARTLY TRUE\",\"confidence\":90}''
                            then Inr (JObj [(js ''verdict'', JStr (js ''PARTLY TRUE'')),
                                            (js ''confidence'', JNum 90)])
                            else Inl (SyntaxError (js ''Unexpected token'')))\<rparr>"

text \<open>The judge replies with the JSON number 42 instead of an object.\<close>

definition number_env :: env where
  "number_env =
     sample_env
       \<lparr>evidence_query := (\<lambda>brandId keyword. [strong_item]),
        judge_reply := Completion (Some (js ''42'')),
        JSON_parse := (\<lambda>s. if s = js ''42'' then Inr (JNum 42)
                            else Inl (SyntaxError (js ''Unexpected token'')))\<rparr>"

text \<open>The correction oracle answers with 581 letters \<open>a\<close>.\<close>

definition long_env :: env where
  "long_env = sample_env\<lparr>correction_reply := Completion (Some (replicate 581 0x61))\<rparr>"

text \<open>The correction oracle answers; the platform answers the publication with HTTP 500.\<close>

definition http500_env :: env where
  "http500_env =
     sample_env\<lparr>correction_reply := Completion (Some (js ''This claim is false.'')),
                fetch_reply := Fetched 500 (Inr (js ''Internal Server Error''))\<rparr>"

text \<open>The judge confirms the claim.\<close>

definition true_env :: env where
  "true_env =
     sample_env
       \<lparr>evidence_query := (\<lambda>brandId keyword. [strong_item]),
        judge_reply := Completion (Some (js ''{\"verdict\":\"TRUE\"}'')),
        JSON_parse := (\<lambda>s. if s = js ''{\"verdict\":\"TRUE\"}''
                            then Inr (JObj [(js ''verdict'', JStr (js ''TRUE''))])
                            else Inl (SyntaxError (js ''Unexpected token'')))\<rparr>"

text \<open>The sample world with a pending response to the sample threat.\<close>

definition pending_world :: world where
  "pending_world = sample_world\<lparr>responses := [sample_response]\<rparr>"

text \<open>The same, with the external post id of the detected post missing.\<close>

definition orphan_world :: world where
  "orphan_world = pending_world\<lparr>posts := [sample_post\<lparr>post_externalPostId := None\<rparr>]\<rparr>"

section \<open>Looking rows up\<close>

lemma find_map_update:
  assumes "\<And>t. key (f t) = key t"
  shows "find (\<lambda>t. key t = k) (map (\<lambda>t. if key t = k then f t else t) ts)
         = map_option f (find (\<lambda>t. key t = k) ts)"
  using assms by (induction ts) auto

lemma find_map_same:
  assumes "\<And>x. P (f x) = P x"
  shows "find P (map (\<lambda>x. if P x then f x else x) xs) = map_option f (find P xs)"
  using assms by (induction xs) auto

lemma find_append_new:
  "find P xs = None \<Longrightarrow> P y \<Longrightarrow> find P (xs @ [y]) = Some y"
  by (induction xs) (auto split: if_splits)

lemma find_holds: "find P xs = Some x \<Longrightarrow> P x"
  by (induction xs) (auto split: if_splits)

lemma find_map_keep:
  assumes "\<And>x. P (g x) = P x"
  shows "find P (map g xs) = map_option g (find P xs)"
  using assms by (induction xs) auto

section \<open>Rounding to binary64\<close>

lemma round_half_even_of_int [simp]: "round_half_even (of_int m) = m"
  by (simp add: round_half_even_def)

lemma binary64_0 [simp]: "binary64 0 = 0"
  by (simp add: binary64_def)

text \<open>An integer of magnitude below \<open>2 ^ 53\<close> is a binary64 value.\<close>

lemma binary64_of_int:
  assumes "\<bar>n\<bar> < 2 ^ 53"
  shows "binary64 (of_int n) = of_int n"
proof (cases "n = 0")
  case True
  then show ?thesis by simp
next
  case False
  define a :: real where "a = \<bar>of_int n\<bar>"
  define e where "e = \<lfloor>log 2 a\<rfloor>"
  have a1: "1 \<le> a" using False by (simp add: a_def)
  have a53: "a < 2 ^ 53"
  proof -
    have "real_of_int \<bar>n\<bar> < real_of_int (2 ^ 53)" using assms by linarith
    then show ?thesis by (simp add: a_def)
  qed
  have "0 \<le> log 2 a" using a1 by simp
  then have e0: "0 \<le> e" by (simp add: e_def)
  have "\<not> 53 \<le> log 2 a"
  proof
    assume "53 \<le> log 2 a"
    then have "2 powr 53 \<le> a" using a1 le_log_iff[of 2 a 53] by simp
    then show False using a53 by simp
  qed
  then have "log 2 a < 53" by simp
  then have e52: "e \<le> 52" by (simp add: e_def floor_less_iff[symmetric, of _ 53])
  define k where "k = nat (52 - e)"
  have k: "real k = 52 - of_int e" using e52 by (simp add: k_def)
  have ulp: "(2::real) powr (of_int e - 52) = 1 / 2 ^ k"
  proof -
    have "of_int e - 52 = - real k" using k by simp
    then show ?thesis by (simp add: powr_minus powr_realpow inverse_eq_divide)
  qed
  have emax: "max e (- 1022) = e" using e0 by simp
  have quot: "real_of_int n / (1 / 2 ^ k) = of_int (n * 2 ^ k)" by simp
  have "binary64 (of_int n)
        = (1 / 2 ^ k) * of_int (round_half_even (real_of_int n / (1 / 2 ^ k)))"
    using False emax ulp by (simp add: binary64_def Let_def a_def[symmetric] e_def[symmetric])
  also have "\<dots> = (1 / 2 ^ k) * of_int (n * 2 ^ k)"
    unfolding quot round_half_even_of_int ..
  also have "\<dots> = of_int n" by simp
  finally show ?thesis .
qed

lemma binary64_numeral [simp]:
  "numeral m < (2 :: int) ^ 53 \<Longrightarrow> binary64 (numeral m) = numeral m"
  using binary64_of_int[of "numeral m"] by simp

lemma binary64_1 [simp]: "binary64 1 = 1"
  using binary64_of_int[of 1] by simp

text \<open>The rounding of a number whose binade is known.\<close>

lemma binary64_in_binade:
  assumes "2 powr of_int e \<le> \<bar>x\<bar>" and "\<bar>x\<bar> < 2 powr (of_int e + 1)" and "- 1022 \<le> e"
  shows "binary64 x
         = 2 powr (of_int e - 52) * of_int (round_half_even (x / 2 powr (of_int e - 52)))"
proof -
  have pos: "0 < \<bar>x\<bar>"
    using assms(1) powr_gt_zero[of 2 "of_int e"] by linarith
  have "of_int e \<le> log 2 \<bar>x\<bar>"
    using assms(1) pos le_log_iff[of 2 "\<bar>x\<bar>" "of_int e"] by simp
  moreover have "log 2 \<bar>x\<bar> < of_int e + 1"
  proof (rule ccontr)
    assume "\<not> log 2 \<bar>x\<bar> < of_int e + 1"
    then have "of_int e + 1 \<le> log 2 \<bar>x\<bar>" by simp
    then have "2 powr (of_int e + 1) \<le> \<bar>x\<bar>"
      using pos le_log_iff[of 2 "\<bar>x\<bar>" "of_int e + 1"] by simp
    then show False using assms(2) by simp
  qed
  ultimately have "\<lfloor>log 2 \<bar>x\<bar>\<rfloor> = e" by (simp add: floor_eq_iff)
  moreover have "x \<noteq> 0" using pos by simp
  ultimately show ?thesis
    using assms(3) by (simp add: binary64_def Let_def max_def)
qed

lemma binary64_7_10 [simp]: "binary64 (7 / 10) = 6305039478318694 / 2 ^ 53"
  using binary64_in_binade[of "-1" "7 / 10"]
  by (simp add: powr_minus round_half_even_def)

section \<open>Verification engine: properties\<close>

lemma find_threat_update:
  assumes "\<And>t. threat_id (f t) = threat_id t"
  shows "find_threat (update_threat w tid f) tid = map_option f (find_threat w tid)"
  using find_map_update[of threat_id f tid "threats w"] assms
  by (simp add: find_threat_def update_threat_def)

lemma judge_throws_Inl: "judge_throws e \<Longrightarrow> \<exists>err. judge e = Inl err"
  by (auto simp: judge_throws_def judge_raw_def judge_def split: completion.splits sum.splits)

lemma judge_memberless_Inr:
  "judge_memberless e \<Longrightarrow>
   judge e = Inr (JStr (js ''UNVERIFIED''), Fin 60, JStr (js ''LLM judge summary''))"
  by (auto simp: judge_memberless_def judge_raw_def judge_def num_or_def
           split: completion.splits sum.splits)

text \<open>What \<open>verifyThreat\<close> does once the threat and its post are loaded.\<close>

lemma verifyThreat_found:
  assumes "find_threat w threatId = Some threat"
      and "find_post w (threat_detectedPostId threat) = Some detectedPost"
  shows "\<exists>v w'. verifyThreat e w threatId = (Inr v, w')
           \<and> find_threat w' threatId = Some (set_verification v threat)
           \<and> v_evidenceIds v =
               map item_id (findMany_scraped e (threat_brandId threat)
                              (firstKeyword (post_content detectedPost)))"
  using assms
  by (auto simp: verifyThreat_def Let_def find_threat_update set_verification_def find_threat_def
                 update_threat_def find_map_update
           split: sum.splits prod.splits)

lemma sample_threat_found: "find_threat sample_world (js ''t1'') = Some sample_threat"
  by (simp add: find_threat_def sample_world_def sample_threat_def)

lemma sample_post_found: "find_post sample_world (threat_detectedPostId sample_threat) = Some sample_post"
  by (simp add: find_post_def sample_world_def sample_threat_def sample_post_def)

text \<open>
  The decision table of \<open>verifyThreat\<close>. For a threat that exists it returns a verdict and
  persists it onto the threat. With no evidence item the verdict is UNVERIFIED with
  confidence 35; with items but none of credibility at least 0.7 it is FALSE with confidence
  80; with credible items, a judge whose \<open>try\<close> block throws gives UNVERIFIED with confidence 60
  and the summary "Judge fallback", and a reply without any of the three members gives
  UNVERIFIED with confidence 60 and the summary "LLM judge summary".
\<close>

lemma verifyThreat_decision_table:
  assumes "find_threat w threatId = Some threat"
      and "find_post w (threat_detectedPostId threat) = Some detectedPost"
      and "scraped = findMany_scraped e (threat_brandId threat)
                       (firstKeyword (post_content detectedPost))"
  shows "\<exists>v w'. verifyThreat e w threatId = (Inr v, w')
           \<and> find_threat w' threatId = Some (set_verification v threat)
           \<and> (scraped = [] \<longrightarrow>
                v_verificationStatus v = JStr (js ''UNVERIFIED'')
                \<and> v_verificationConfidence v = Fin 35
                \<and> v_verificationSummary v =
                    JStr (js ''No relevant coverage found among trusted sources.''))
           \<and> (scraped \<noteq> [] \<and> credible_items scraped = [] \<longrightarrow>
                v_verificationStatus v = JStr (js ''FALSE'')
                \<and> v_verificationConfidence v = Fin 80
                \<and> v_verificationSummary v =
                    JStr (js ''No trusted outlet confirms this claim; appears unsubstantiated.''))
           \<and> (credible_items scraped \<noteq> [] \<and> judge_throws e \<longrightarrow>
                v_verificationStatus v = JStr (js ''UNVERIFIED'')
                \<and> v_verificationConfidence v = Fin 60
                \<and> v_verificationSummary v = JStr (js ''Judge fallback''))
           \<and> (credible_items scraped \<noteq> [] \<and> judge_memberless e \<longrightarrow>
                v_verificationStatus v = JStr (js ''UNVERIFIED'')
                \<and> v_verificationConfidence v = Fin 60
                \<and> v_verificationSummary v = JStr (js ''LLM judge summary''))"
proof -
  obtain v w' where run: "verifyThreat e w threatId = (Inr v, w')"
    and persisted: "find_threat w' threatId = Some (set_verification v threat)"
    using verifyThreat_found[OF assms(1,2)] by blast
  have none: "v_verificationStatus v = JStr (js ''UNVERIFIED'')
              \<and> v_verificationConfidence v = Fin 35
              \<and> v_verificationSummary v =
                  JStr (js ''No relevant coverage found among trusted sources.'')"
    if "scraped = []"
    using run that assms by (auto simp: verifyThreat_def Let_def)
  have weak: "v_verificationStatus v = JStr (js ''FALSE'')
              \<and> v_verificationConfidence v = Fin 80
              \<and> v_verificationSummary v =
                  JStr (js ''No trusted outlet confirms this claim; appears unsubstantiated.'')"
    if "scraped \<noteq> []" and "credible_items scraped = []"
    using run that assms by (auto simp: verifyThreat_def Let_def)
  have fallback: "v_verificationStatus v = JStr (js ''UNVERIFIED'')
              \<and> v_verificationConfidence v = Fin 60
              \<and> v_verificationSummary v = JStr (js ''Judge fallback'')"
    if c: "credible_items scraped \<noteq> []" and j: "judge_throws e"
  proof -
    from c have "scraped \<noteq> []" by (auto simp: credible_items_def)
    moreover obtain err where "judge e = Inl err" using judge_throws_Inl[OF j] by blast
    ultimately show ?thesis
      using run c assms by (auto simp: verifyThreat_def Let_def)
  qed
  have shapeless: "v_verificationStatus v = JStr (js ''UNVERIFIED'')
              \<and> v_verificationConfidence v = Fin 60
              \<and> v_verificationSummary v = JStr (js ''LLM judge summary'')"
    if c: "credible_items scraped \<noteq> []" and j: "judge_memberless e"
  proof -
    from c have "scraped \<noteq> []" by (auto simp: credible_items_def)
    then show ?thesis
      using run c assms judge_memberless_Inr[OF j]
      by (auto simp: verifyThreat_def Let_def)
  qed
  from run persisted none weak fallback shapeless show ?thesis by blast
qed

lemma verifyThreat_decision_table_examples:
  "(\<exists>v w'. verifyThreat sample_env sample_world (js ''t1'') = (Inr v, w')
      \<and> find_threat w' (js ''t1'') = Some (set_verification v sample_threat)
      \<and> v_verificationStatus v = JStr (js ''UNVERIFIED'')
      \<and> v_verificationConfidence v = Fin 35)
   \<and> (\<exists>v w'. verifyThreat weak_env sample_world (js ''t1'') = (Inr v, w')
      \<and> v_verificationStatus v = JStr (js ''FALSE'')
      \<and> v_verificationConfidence v = Fin 80)
   \<and> (\<exists>v w'. verifyThreat strong_env sample_world (js ''t1'') = (Inr v, w')
      \<and> v_verificationStatus v = JStr (js ''UNVERIFIED'')
      \<and> v_verificationConfidence v = Fin 60
      \<and> v_verificationSummary v = JStr (js ''Judge fallback''))
   \<and> (\<exists>v w'. verifyThreat number_env sample_world (js ''t1'') = (Inr v, w')
      \<and> v_verificationStatus v = JStr (js ''UNVERIFIED'')
      \<and> v_verificationConfidence v = Fin 60
      \<and> v_verificationSummary v = JStr (js ''LLM judge summary''))"
proof -
  have none: "findMany_scraped sample_env b k = []" for b k
    by (simp add: findMany_scraped_def sample_env_def)
  have weak: "findMany_scraped weak_env b k = [weak_item]" for b k
    by (simp add: findMany_scraped_def weak_env_def sample_env_def)
  have weak_c: "credible_items [weak_item] = []"
    by (simp add: credible_items_def weak_item_def)
  have strong: "findMany_scraped strong_env b k = [strong_item]" for b k
    by (simp add: findMany_scraped_def strong_env_def sample_env_def)
  have strong_c: "credible_items [strong_item] \<noteq> []"
    by (simp add: credible_items_def strong_item_def)
  have fails: "judge_throws strong_env"
    by (simp add: judge_throws_def judge_raw_def strong_env_def sample_env_def)
  have a: "\<exists>v w'. verifyThreat sample_env sample_world (js ''t1'') = (Inr v, w')
      \<and> find_threat w' (js ''t1'') = Some (set_verification v sample_threat)
      \<and> v_verificationStatus v = JStr (js ''UNVERIFIED'')
      \<and> v_verificationConfidence v = Fin 35"
    using verifyThreat_decision_table[OF sample_threat_found sample_post_found refl, of sample_env]
    unfolding none by blast
  have b: "\<exists>v w'. verifyThreat weak_env sample_world (js ''t1'') = (Inr v, w')
      \<and> v_verificationStatus v = JStr (js ''FALSE'')
      \<and> v_verificationConfidence v = Fin 80"
    using verifyThreat_decision_table[OF sample_threat_found sample_post_found refl, of weak_env]
          weak_c
    unfolding weak by blast
  have c: "\<exists>v w'. verifyThreat strong_env sample_world (js ''t1'') = (Inr v, w')
      \<and> v_verificationStatus v = JStr (js ''UNVERIFIED'')
      \<and> v_verificationConfidence v = Fin 60
      \<and> v_verificationSummary v = JStr (js ''Judge fallback'')"
    using verifyThreat_decision_table[OF sample_threat_found sample_post_found refl, of strong_env]
          strong_c fails
    unfolding strong by blast
  have number: "findMany_scraped number_env b k = [strong_item]" for b k
    by (simp add: findMany_scraped_def number_env_def sample_env_def)
  have "trim (js ''42'') = js ''42''"
    by (simp add: trim_def js_def is_ws_def)
  then have shapeless: "judge_memberless number_env"
    by (simp add: judge_memberless_def judge_raw_def number_env_def sample_env_def)
  have d: "\<exists>v w'. verifyThreat number_env sample_world (js ''t1'') = (Inr v, w')
      \<and> v_verificationStatus v = JStr (js ''UNVERIFIED'')
      \<and> v_verificationConfidence v = Fin 60
      \<and> v_verificationSummary v = JStr (js ''LLM judge summary'')"
    using verifyThreat_decision_table[OF sample_threat_found sample_post_found refl, of number_env]
          strong_c shapeless
    unfolding number by blast
  from a b c d show ?thesis by (intro conjI)
qed

text \<open>
  C1. The rows of the table without a judge, and the fallback when the judge's \<open>try\<close> block
  throws, are as the specification has them (above). The fallback does not cover every
  malformed reply: with one credible item and the judge's reply
  \<open>{"verdict":"PARTLY TRUE","confidence":90}\<close>, whose verdict is outside the expected
  vocabulary, \<open>verifyThreat\<close> returns and persists the status "PARTLY TRUE" with confidence
  90, not UNVERIFIED with confidence 60.
\<close>

theorem verifyThreat_malformed_reply_not_degraded:
  "\<exists>v w'. verifyThreat partly_env sample_world (js ''t1'') = (Inr v, w')
     \<and> find_threat w' (js ''t1'') = Some (set_verification v sample_threat)
     \<and> v_verificationStatus v = JStr (js ''PARTLY TRUE'')
     \<and> v_verificationConfidence v = Fin 90
     \<and> v_verificationStatus v \<noteq> JStr (js ''UNVERIFIED'')
     \<and> v_verificationConfidence v \<noteq> Fin 60"
proof -
  have scraped: "findMany_scraped partly_env b k = [strong_item]" for b k
    by (simp add: findMany_scraped_def partly_env_def sample_env_def)
  have credible: "credible_items [strong_item] = [strong_item]"
    by (simp add: credible_items_def strong_item_def)
  have trimmed: "trim (js ''{\"verdict\":\"PARTLY TRUE\",\"confidence\":90}'')
                 = js ''{\"verdict\":\"PARTLY TRUE\",\"confidence\":90}''"
    by (simp add: trim_def js_def is_ws_def)
  have judged: "judge partly_env
                = Inr (JStr (js ''PARTLY TRUE''), Fin 90, JStr (js ''LLM judge summary''))"
    by (simp add: judge_def partly_env_def sample_env_def trimmed num_or_def)
       (simp add: js_def)
  obtain v w' where run: "verifyThreat partly_env sample_world (js ''t1'') = (Inr v, w')"
    and persisted: "find_threat w' (js ''t1'') = Some (set_verification v sample_threat)"
    using verifyThreat_found[OF sample_threat_found sample_post_found] by blast
  have st: "v_verificationStatus v = JStr (js ''PARTLY TRUE'')"
    and cf: "v_verificationConfidence v = Fin 90"
    using run sample_threat_found sample_post_found scraped credible judged
    by (auto simp: verifyThreat_def Let_def)
  have "JStr (js ''PARTLY TRUE'') \<noteq> JStr (js ''UNVERIFIED'')"
    by (simp add: js_def)
  with run persisted st cf show ?thesis by auto
qed

text \<open>
  C2. The judge replies \<open>{"verdict":"MAYBE"}\<close> for a threat with one credible evidence item:
  \<open>verifyThreat\<close> returns and persists the status \<open>"MAYBE"\<close>, which is none of TRUE, FALSE
  and UNVERIFIED.
\<close>

theorem verifyThreat_status_unchecked:
  "\<exists>v w'. verifyThreat maybe_env sample_world (js ''t1'') = (Inr v, w')
     \<and> v_verificationStatus v = JStr (js ''MAYBE'')
     \<and> map_option threat_verificationStatus (find_threat w' (js ''t1''))
         = Some (Some (JStr (js ''MAYBE'')))
     \<and> v_verificationStatus v \<notin>
         {JStr (js ''TRUE''), JStr (js ''FALSE''), JStr (js ''UNVERIFIED'')}"
proof -
  have scraped: "findMany_scraped maybe_env b k = [strong_item]" for b k
    by (simp add: findMany_scraped_def maybe_env_def sample_env_def)
  have credible: "credible_items [strong_item] = [strong_item]"
    by (simp add: credible_items_def strong_item_def)
  have trimmed: "trim (js ''{\"verdict\":\"MAYBE\"}'') = js ''{\"verdict\":\"MAYBE\"}''"
    by (simp add: trim_def js_def is_ws_def)
  have judged: "judge maybe_env = Inr (JStr (js ''MAYBE''), Fin 60, JStr (js ''LLM judge summary''))"
    by (simp add: judge_def maybe_env_def sample_env_def trimmed num_or_def)
       (simp add: js_def)
  obtain v w' where run: "verifyThreat maybe_env sample_world (js ''t1'') = (Inr v, w')"
    and persisted: "find_threat w' (js ''t1'') = Some (set_verification v sample_threat)"
    using verifyThreat_found[OF sample_threat_found sample_post_found] by blast
  have st: "v_verificationStatus v = JStr (js ''MAYBE'')"
    using run sample_threat_found sample_post_found scraped credible judged
    by (auto simp: verifyThreat_def Let_def)
  have "JStr (js ''MAYBE'') \<notin> {JStr (js ''TRUE''), JStr (js ''FALSE''), JStr (js ''UNVERIFIED'')}"
    by (simp add: js_def)
  with run persisted st show ?thesis
    by (auto simp: set_verification_def)
qed

section \<open>Scoring engine and threat builder: properties\<close>

lemma upsert_post_stored:
  assumes "upsert_post w ext pf upd created = (p, w')"
      and "\<And>x. post_externalPostId (upd x) = post_externalPostId x"
      and "\<And>x. post_platform (upd x) = post_platform x"
      and "post_externalPostId created = Some ext" and "post_platform created = pf"
  shows "find (\<lambda>p. post_externalPostId p = Some ext \<and> post_platform p = pf) (posts w') = Some p"
    and "(\<exists>old. p = upd old) \<or> p = created"
    and "threats w' = threats w"
proof -
  let ?same = "\<lambda>p. post_externalPostId p = Some ext \<and> post_platform p = pf"
  show "find ?same (posts w') = Some p"
  proof (cases "find ?same (posts w)")
    case None
    then show ?thesis
      using assms find_append_new[of ?same "posts w" created]
      by (auto simp: upsert_post_def Let_def)
  next
    case (Some old)
    then show ?thesis
      using assms find_map_same[of ?same upd "posts w"]
      by (auto simp: upsert_post_def Let_def)
  qed
  show "(\<exists>old. p = upd old) \<or> p = created"
    using assms(1) by (auto simp: upsert_post_def Let_def split: option.splits)
  show "threats w' = threats w"
    using assms(1) by (auto simp: upsert_post_def Let_def split: option.splits)
qed

lemma upsert_threat_stored:
  assumes "upsert_threat w pid upd created = (t, w')"
      and "\<And>x. threat_detectedPostId (upd x) = threat_detectedPostId x"
      and "threat_detectedPostId created = pid"
  shows "find (\<lambda>t. threat_detectedPostId t = pid) (threats w') = Some t"
    and "(\<exists>old. find (\<lambda>t. threat_detectedPostId t = pid) (threats w) = Some old \<and> t = upd old)
         \<or> (find (\<lambda>t. threat_detectedPostId t = pid) (threats w) = None \<and> t = created)"
    and "posts w' = posts w"
proof -
  let ?own = "\<lambda>t. threat_detectedPostId t = pid"
  show "find ?own (threats w') = Some t"
  proof (cases "find ?own (threats w)")
    case None
    then show ?thesis
      using assms find_append_new[of ?own "threats w" created]
      by (auto simp: upsert_threat_def)
  next
    case (Some old)
    then show ?thesis
      using assms find_map_same[of ?own upd "threats w"]
      by (auto simp: upsert_threat_def)
  qed
  show "(\<exists>old. find ?own (threats w) = Some old \<and> t = upd old)
         \<or> (find ?own (threats w) = None \<and> t = created)"
    using assms(1) by (auto simp: upsert_threat_def split: option.splits)
  show "posts w' = posts w"
    using assms(1) by (auto simp: upsert_threat_def split: option.splits)
qed

lemma viralScore_cases:
  "viralScore d = (if data_viewCount d > 0 then spec_viralScore d else 0)"
  "engagementRate d = (if data_viewCount d > 0 then spec_engagementRate d else 0)"
proof -
  have "max (data_viewCount d) 1 = data_viewCount d" if "data_viewCount d > 0"
    using that by simp
  then show rate: "engagementRate d = (if data_viewCount d > 0 then spec_engagementRate d else 0)"
    by (simp add: engagementRate_def spec_engagementRate_def)
  show "viralScore d = (if data_viewCount d > 0 then spec_viralScore d else 0)"
  proof (cases "data_viewCount d > 0")
    case True
    then show ?thesis using rate by (simp add: viralScore_def spec_viralScore_def)
  next
    case False
    then have "engagementRate d = 0" by (simp add: engagementRate_def)
    then show ?thesis using False by (simp add: viralScore_def)
  qed
qed

text \<open>The detected post that a run of \<open>detectAndStorePost\<close> leaves in the table.\<close>

lemma detectAndStorePost_post:
  assumes mon: "find (\<lambda>m. monitor_id m = data_monitorId d) (monitors w) = Some monitor"
      and run: "detectAndStorePost e w d = (r, w')"
  shows "\<exists>p. find (same_post d) (posts w') = Some p
           \<and> post_viralScore p = viralScore d \<and> post_engagementRate p = engagementRate d"
proof -
  define a where "a = detect e monitor d"
  obtain p w1 where up: "upsert_post w (data_externalPostId d) (data_platform d)
                           (post_update e d a) (post_create e d a) = (p, w1)"
    by (cases "upsert_post w (data_externalPostId d) (data_platform d)
                 (post_update e d a) (post_create e d a)") blast
  have stored: "find (same_post d) (posts w1) = Some p"
    using upsert_post_stored(1)[OF up]
    by (simp add: post_update_def post_create_def same_post_def[abs_def])
  have "(\<exists>old. p = post_update e d a old) \<or> p = post_create e d a"
    using upsert_post_stored(2)[OF up] by (simp add: post_update_def post_create_def)
  then have fields: "post_viralScore p = viralScore d \<and> post_engagementRate p = engagementRate d"
    by (auto simp: post_update_def post_create_def)
  have "posts w' = posts w1"
  proof (cases "triggered a")
    case False
    then show ?thesis using run mon up by (simp add: detectAndStorePost_def a_def)
  next
    case True
    obtain t w2 where ut: "upsert_threat w1 (post_id p) (threat_update e d a)
                             (threat_create e d a p) = (t, w2)"
      by (cases "upsert_threat w1 (post_id p) (threat_update e d a) (threat_create e d a p)") blast
    have "posts w2 = posts w1"
      using upsert_threat_stored(3)[OF ut] by (simp add: threat_update_def threat_create_def)
    then show ?thesis
      using run mon up ut True
      by (auto simp: detectAndStorePost_def a_def[symmetric] enqueue_verification_def)
  qed
  with stored fields show ?thesis by auto
qed

lemma sample_triggered: "triggered (detect sample_env sample_monitor sample_data)"
  by (simp add: triggered_def detect_def sample_env_def sample_monitor_def Let_def)

lemma responded_run:
  "detectAndStorePost sample_env responded_world sample_data =
     (Some (threat_update sample_env sample_data (detect sample_env sample_monitor sample_data)
              (sample_threat\<lparr>threat_status := RESPONDED\<rparr>)),
      enqueue_verification
        (responded_world
           \<lparr>posts := [post_update sample_env sample_data
                        (detect sample_env sample_monitor sample_data) sample_post],
            threats := [threat_update sample_env sample_data
                          (detect sample_env sample_monitor sample_data)
                          (sample_threat\<lparr>threat_status := RESPONDED\<rparr>)]\<rparr>)
        (js ''t1''))"
proof -
  have mon: "find (\<lambda>m. monitor_id m = data_monitorId sample_data) (monitors responded_world)
             = Some sample_monitor"
    by (simp add: responded_world_def sample_world_def sample_monitor_def sample_data_def)
  note trig = sample_triggered
  have up: "upsert_post responded_world (data_externalPostId sample_data) (data_platform sample_data) upd created
            = (upd sample_post, responded_world\<lparr>posts := [upd sample_post]\<rparr>)" for upd created
    by (simp add: upsert_post_def responded_world_def sample_world_def sample_post_def sample_data_def)
  have ut: "upsert_threat (responded_world\<lparr>posts := ps\<rparr>) (js ''p1'') upd created
            = (upd (sample_threat\<lparr>threat_status := RESPONDED\<rparr>),
               responded_world\<lparr>posts := ps, threats := [upd (sample_threat\<lparr>threat_status := RESPONDED\<rparr>)]\<rparr>)"
    for upd created ps
    by (simp add: upsert_threat_def responded_world_def sample_world_def sample_threat_def)
  have pid: "post_id (post_update e d a sample_post) = js ''p1''" for e d a
    by (simp add: post_update_def sample_post_def)
  have tid: "threat_id (threat_update e d a (sample_threat\<lparr>threat_status := RESPONDED\<rparr>)) = js ''t1''" for e d a
    by (simp add: threat_update_def sample_threat_def)
  show ?thesis
    by (simp add: detectAndStorePost_def Let_def mon trig up pid ut tid)
qed

lemma sample_engagement: "totalEngagement (sample_data\<lparr>data_viewCount := n\<rparr>) = 8"
  by (simp add: totalEngagement_def sample_data_def)

lemma zero_view_scores:
  "engagementRate zero_view_data = 0" "viralScore zero_view_data = 0"
  "spec_engagementRate zero_view_data = 8" "spec_viralScore zero_view_data = 100"
proof -
  show rate: "engagementRate zero_view_data = 0"
    by (simp add: engagementRate_def zero_view_data_def)
  show "viralScore zero_view_data = 0"
    using viralScore_cases(1)[of zero_view_data] by (simp add: zero_view_data_def)
  show spec: "spec_engagementRate zero_view_data = 8"
    by (simp add: spec_engagementRate_def zero_view_data_def sample_engagement)
  have "data_retweetCount zero_view_data = 2"
    by (simp add: zero_view_data_def sample_data_def)
  then show "spec_viralScore zero_view_data = 100"
    by (simp add: spec_viralScore_def spec)
qed

text \<open>
  The rounding shows at 0 likes, 1 retweet, 0 replies and 3 views: the rate is the double
  next to 1/3 and the score the double just below 50, 49.99999999999999.
\<close>

lemma third_scores:
  "engagementRate third_data = 6004799503160661 / 2 ^ 54"
  "viralScore third_data = 7036874417766399 / 2 ^ 47"
proof -
  have r1: "binary64 (1 / 3) = 6004799503160661 / 2 ^ 54"
    using binary64_in_binade[of "-2" "1 / 3"]
    by (simp add: powr_minus round_half_even_def)
  have r2: "binary64 (1 / 2) = 1 / 2"
    using binary64_in_binade[of "-1" "1 / 2"]
    by (simp add: powr_minus round_half_even_def)
  have r3: "binary64 (3 / 2) = 3 / 2"
    using binary64_in_binade[of "0" "3 / 2"]
    by (simp add: powr_minus round_half_even_def)
  have r4: "binary64 (6004799503160661 / 2 ^ 54 * 100) = 4691249611844266 / 2 ^ 47"
    using binary64_in_binade[of "5" "6004799503160661 / 2 ^ 54 * 100"]
    by (simp add: powr_minus round_half_even_def)
  have r5: "binary64 (4691249611844266 / 2 ^ 47 * (3 / 2)) = 7036874417766399 / 2 ^ 47"
    using binary64_in_binade[of "5" "4691249611844266 / 2 ^ 47 * (3 / 2)"]
    by (simp add: powr_minus round_half_even_def)
  have total: "totalEngagement third_data = 1"
    by (simp add: totalEngagement_def third_data_def)
  have fields: "data_viewCount third_data = 3" "data_retweetCount third_data = 1"
    by (simp_all add: third_data_def)
  show rate: "engagementRate third_data = 6004799503160661 / 2 ^ 54"
    unfolding engagementRate_def total fields by (simp add: r1)
  have "binary64 (1 + binary64 (real_of_int (data_retweetCount third_data) * 0.5))
        = binary64 (1 + binary64 (1 / 2))"
    by (simp add: fields)
  also have "\<dots> = binary64 (3 / 2)" by (simp add: r2)
  also have "\<dots> = 3 / 2" by (rule r3)
  finally have factor:
    "binary64 (1 + binary64 (real_of_int (data_retweetCount third_data) * 0.5)) = 3 / 2" .
  have "binary64 (binary64 (engagementRate third_data * 100) * (3 / 2))
        = 7036874417766399 / 2 ^ 47"
    unfolding rate r4 r5 ..
  then show "viralScore third_data = 7036874417766399 / 2 ^ 47"
    unfolding viralScore_def factor by simp
qed

text \<open>
  C5 (as stated). A post with 5 likes, 2 retweets, 1 reply and zero views: the code gives
  engagement rate 0 and virality 0, the specification's formula gives 8 and 100.
\<close>

theorem viralScore_zero_views_counterexample:
  "engagementRate zero_view_data = 0 \<and> spec_engagementRate zero_view_data = 8
   \<and> viralScore zero_view_data = 0 \<and> spec_viralScore zero_view_data = 100
   \<and> viralScore zero_view_data \<noteq> spec_viralScore zero_view_data"
  by (simp add: zero_view_scores)

text \<open>
  C5 (amended). For every incoming post whose monitor exists, the detected post stored by
  \<open>detectAndStorePost\<close> carries, in double-precision arithmetic (each operation rounded to
  the nearest double), the engagement rate (likes + retweets + replies) / views when the view
  count is positive and 0 otherwise, and the virality min(100, rate * 100 * (1 + retweets *
  0.5)). For a positive view count this is the specification's formula; a post without views
  has engagement rate 0 and virality 0.
\<close>

theorem detectAndStorePost_virality:
  assumes "find (\<lambda>m. monitor_id m = data_monitorId d) (monitors w) = Some monitor"
      and "detectAndStorePost e w d = (r, w')"
  shows "\<exists>p. find (same_post d) (posts w') = Some p
           \<and> post_engagementRate p =
               (if data_viewCount d > 0
                then binary64
                       (binary64 (binary64 (real_of_int (data_likeCount d)
                                            + real_of_int (data_retweetCount d))
                                  + real_of_int (data_replyCount d))
                        / real_of_int (data_viewCount d))
                else 0)
           \<and> post_viralScore p =
               min 100 (binary64 (binary64 (post_engagementRate p * 100)
                                  * binary64 (1 + binary64 (real_of_int (data_retweetCount d) * 0.5))))
           \<and> (data_viewCount d > 0 \<longrightarrow> post_viralScore p = spec_viralScore d)
           \<and> (data_viewCount d \<le> 0 \<longrightarrow> post_engagementRate p = 0 \<and> post_viralScore p = 0)"
proof -
  obtain p where p: "find (same_post d) (posts w') = Some p"
    "post_viralScore p = viralScore d" "post_engagementRate p = engagementRate d"
    using detectAndStorePost_post[OF assms] by blast
  have "data_viewCount d > 0 \<longrightarrow> post_viralScore p = spec_viralScore d"
    using p(2) viralScore_cases(1)[of d] by simp
  moreover have "data_viewCount d \<le> 0 \<longrightarrow> post_engagementRate p = 0 \<and> post_viralScore p = 0"
    using p(2,3) viralScore_cases[of d] by simp
  moreover have "post_viralScore p =
      min 100 (binary64 (binary64 (post_engagementRate p * 100)
                         * binary64 (1 + binary64 (real_of_int (data_retweetCount d) * 0.5))))"
    using p(2,3) by (simp add: viralScore_def)
  moreover have "post_engagementRate p =
      (if data_viewCount d > 0
       then binary64
              (binary64 (binary64 (real_of_int (data_likeCount d)
                                   + real_of_int (data_retweetCount d))
                         + real_of_int (data_replyCount d))
               / real_of_int (data_viewCount d))
       else 0)"
    using p(3) by (simp add: engagementRate_def totalEngagement_def)
  ultimately show ?thesis using p(1) by blast
qed

theorem detectAndStorePost_virality_witness:
  "(\<exists>p. find (same_post third_data)
          (posts (snd (detectAndStorePost sample_env sample_world third_data))) = Some p
       \<and> post_engagementRate p = 6004799503160661 / 2 ^ 54
       \<and> post_viralScore p = 7036874417766399 / 2 ^ 47
       \<and> post_viralScore p < 50)
   \<and> (\<exists>p. find (same_post zero_view_data)
          (posts (snd (detectAndStorePost sample_env sample_world zero_view_data))) = Some p
       \<and> post_engagementRate p = 0
       \<and> post_viralScore p = 0)"
proof -
  have mon: "find (\<lambda>m. monitor_id m = data_monitorId third_data) (monitors sample_world)
             = Some sample_monitor"
    "find (\<lambda>m. monitor_id m = data_monitorId zero_view_data) (monitors sample_world)
             = Some sample_monitor"
    by (simp_all add: sample_world_def sample_monitor_def sample_data_def third_data_def
          zero_view_data_def)
  have views: "data_viewCount third_data > 0" "data_viewCount zero_view_data \<le> 0"
    by (simp_all add: third_data_def zero_view_data_def)
  from detectAndStorePost_virality[OF mon(1) surjective_pairing, of sample_env]
  obtain p where found: "find (same_post third_data)
          (posts (snd (detectAndStorePost sample_env sample_world third_data))) = Some p"
    and rate: "post_engagementRate p =
               (if data_viewCount third_data > 0
                then binary64
                       (binary64 (binary64 (real_of_int (data_likeCount third_data)
                                            + real_of_int (data_retweetCount third_data))
                                  + real_of_int (data_replyCount third_data))
                        / real_of_int (data_viewCount third_data))
                else 0)"
    and score: "post_viralScore p =
               min 100 (binary64 (binary64 (post_engagementRate p * 100)
                                  * binary64 (1 + binary64 (real_of_int (data_retweetCount third_data) * 0.5))))"
    by blast
  have r: "post_engagementRate p = engagementRate third_data"
    using rate by (simp add: engagementRate_def totalEngagement_def)
  then have s: "post_viralScore p = viralScore third_data"
    using score by (simp add: viralScore_def)
  have a: "\<exists>p. find (same_post third_data)
          (posts (snd (detectAndStorePost sample_env sample_world third_data))) = Some p
       \<and> post_engagementRate p = 6004799503160661 / 2 ^ 54
       \<and> post_viralScore p = 7036874417766399 / 2 ^ 47
       \<and> post_viralScore p < 50"
    using found r s by (intro exI[of _ p]) (simp add: third_scores)
  have b: "\<exists>p. find (same_post zero_view_data)
          (posts (snd (detectAndStorePost sample_env sample_world zero_view_data))) = Some p
       \<and> post_engagementRate p = 0
       \<and> post_viralScore p = 0"
    using detectAndStorePost_virality[OF mon(2) surjective_pairing, of sample_env] views(2)
    by blast
  from a b show ?thesis by simp
qed

text \<open>
  C6 (as stated). The sample threat has been marked RESPONDED; the same post triggers
  detection again, and the upsert's update sets the status back to NEW.
\<close>

theorem threat_upsert_demotes_counterexample:
  "map_option threat_status (find_threat responded_world (js ''t1'')) = Some RESPONDED
   \<and> map_option threat_status
        (find_threat (snd (detectAndStorePost sample_env responded_world sample_data)) (js ''t1''))
      = Some NEW"
  by (simp add: responded_run)
     (simp add: find_threat_def responded_world_def sample_world_def sample_threat_def
        enqueue_verification_def threat_update_def)

text \<open>
  C6 (amended). Whenever a post triggers detection, the threat returned by
  \<open>detectAndStorePost\<close> and stored for the detected post has status NEW, on creation and on
  update alike: a re-trigger resets the lifecycle status of an existing threat to NEW.
\<close>

theorem threat_upsert_sets_NEW:
  assumes run: "detectAndStorePost e w d = (Some t, w')"
  shows "threat_status t = NEW
         \<and> find (\<lambda>x. threat_detectedPostId x = threat_detectedPostId t) (threats w') = Some t"
proof -
  obtain monitor where mon: "find (\<lambda>m. monitor_id m = data_monitorId d) (monitors w) = Some monitor"
    using run by (auto simp: detectAndStorePost_def split: option.splits)
  define a where "a = detect e monitor d"
  obtain p w1 where up: "upsert_post w (data_externalPostId d) (data_platform d)
                           (post_update e d a) (post_create e d a) = (p, w1)"
    by (cases "upsert_post w (data_externalPostId d) (data_platform d)
                 (post_update e d a) (post_create e d a)") blast
  have trig: "triggered a"
    using run mon up by (auto simp: detectAndStorePost_def a_def[symmetric] split: if_splits)
  obtain t' w2 where ut: "upsert_threat w1 (post_id p) (threat_update e d a)
                             (threat_create e d a p) = (t', w2)"
    by (cases "upsert_threat w1 (post_id p) (threat_update e d a) (threat_create e d a p)") blast
  have res: "t = t'" "w' = enqueue_verification w2 (threat_id t')"
    using run mon up ut trig by (auto simp: detectAndStorePost_def a_def[symmetric])
  have keyed: "threat_detectedPostId t' = post_id p"
    using upsert_threat_stored(2)[OF ut]
    by (auto simp: threat_update_def threat_create_def dest: find_holds)
  have "find (\<lambda>x. threat_detectedPostId x = post_id p) (threats w2) = Some t'"
    using upsert_threat_stored(1)[OF ut] by (simp add: threat_update_def threat_create_def)
  moreover have "threat_status t' = NEW"
    using upsert_threat_stored(2)[OF ut] by (auto simp: threat_update_def threat_create_def)
  ultimately show ?thesis
    using res keyed by (simp add: enqueue_verification_def)
qed

theorem threat_upsert_sets_NEW_witness:
  "threat_status (threat_update sample_env sample_data
                    (detect sample_env sample_monitor sample_data)
                    (sample_threat\<lparr>threat_status := RESPONDED\<rparr>)) = NEW"
  using threat_upsert_sets_NEW[OF responded_run] by simp

section \<open>Publisher: properties\<close>

lemma find_response_update:
  assumes "\<And>r. resp_id (f r) = resp_id r"
  shows "find_response (update_response w rid f) rid = map_option f (find_response w rid)"
  using find_map_update[of resp_id f rid "responses w"] assms
  by (simp add: find_response_def update_response_def)

lemma wsBroadcast_fields [simp]:
  "responses (wsBroadcast w ev) = responses w"
  "threats (wsBroadcast w ev) = threats w"
  "posts (wsBroadcast w ev) = posts w"
  "brands (wsBroadcast w ev) = brands w"
  "oracle_log (wsBroadcast w ev) = oracle_log w"
  "http_log (wsBroadcast w ev) = http_log w"
  "ws_bound (wsBroadcast w ev) = ws_bound w"
  "ws_events (wsBroadcast w ev) = ws_events w @ (if ws_bound w then [ev] else [])"
  by (simp_all add: wsBroadcast_def)

lemma find_response_wsBroadcast [simp]:
  "find_response (wsBroadcast w ev) rid = find_response w rid"
  by (simp add: find_response_def)

text \<open>A publication that gets as far as the request and then fails.\<close>

lemma postResponseToXClone_failed_attempt:
  assumes "find_response w responseId = Some response"
      and "find_threat w (resp_threatId response) = Some threat"
      and "find_post w (threat_detectedPostId threat) = Some target"
      and "post_externalPostId target = Some (c # cs)"
      and "post_attempt e
             (w\<lparr>http_log := http_log w @
                  [\<lparr>req_url = XCLONE_API_URL e @ js ''/api/twitter/tweets'',
                    req_text = js ''@'' @ post_authorHandle target @ js '' '' @ resp_content response,
                    req_quote_tweet = c # cs, req_language = js ''ENGLISH'',
                    req_is_konfam_response = True\<rparr>]\<rparr>) responseId response = (Inl err, w2)"
  shows "postResponseToXClone e w responseId =
           (Inl err,
            wsBroadcast (update_response w2 responseId (\<lambda>r. r\<lparr>resp_status := FAILED\<rparr>))
              (response_failed responseId (resp_threatId response) (message err)))"
  using assms by (simp add: postResponseToXClone_def Let_def)

lemma post_attempt_not_ok:
  assumes "fetch_reply e = Fetched status body" and "\<not> res_ok status"
  shows "post_attempt e w responseId response =
           (Inl (case body of Inl err \<Rightarrow> err | Inr text \<Rightarrow> Error (js ''X-clone response: '' @ text)), w)"
  using assms by (simp add: post_attempt_def split: sum.splits)

lemma post_attempt_no_request:
  "post_attempt e w responseId response = (res, w') \<Longrightarrow> http_log w' = http_log w"
  by (auto simp: post_attempt_def Let_def update_response_def
           split: fetch_outcome.splits sum.splits if_splits)

text \<open>
  C7. When the detected post of a response has no external post id (it is null or empty),
  \<open>postResponseToXClone\<close> fails with the error "Detected post not found for threat" and no
  request is sent to the platform: the request trace, like all of the state, is unchanged.
\<close>

theorem postResponseToXClone_missing_reply_target:
  assumes "find_response w responseId = Some response"
      and "find_threat w (resp_threatId response) = Some threat"
      and "find_post w (threat_detectedPostId threat) = Some target"
      and "post_externalPostId target = None \<or> post_externalPostId target = Some []"
  shows "postResponseToXClone e w responseId =
           (Inl (Error (js ''Detected post not found for threat'')), w)
         \<and> http_log (snd (postResponseToXClone e w responseId)) = http_log w"
  using assms by (auto simp: postResponseToXClone_def)

lemma orphan_lookups:
  "find_response orphan_world (js ''r1'') = Some sample_response"
  "find_threat orphan_world (resp_threatId sample_response) = Some sample_threat"
  "find_post orphan_world (threat_detectedPostId sample_threat)
     = Some (sample_post\<lparr>post_externalPostId := None\<rparr>)"
  by (simp_all add: find_response_def find_threat_def find_post_def orphan_world_def
        pending_world_def sample_world_def sample_response_def sample_threat_def sample_post_def)

theorem postResponseToXClone_missing_reply_target_witness:
  "postResponseToXClone http500_env orphan_world (js ''r1'') =
     (Inl (Error (js ''Detected post not found for threat'')), orphan_world)
   \<and> http_log (snd (postResponseToXClone http500_env orphan_world (js ''r1''))) = []"
proof -
  have "http_log orphan_world = []"
    by (simp add: orphan_world_def pending_world_def sample_world_def)
  then show ?thesis
    using postResponseToXClone_missing_reply_target[OF orphan_lookups, of http500_env] by simp
qed

text \<open>
  C8. When the request is sent and the platform answers with a status outside 200..299,
  \<open>postResponseToXClone\<close> sets the response's status to FAILED, hands a
  \<open>response_failed\<close> event with the error's message to the broadcaster (bound, as
  \<open>app.ts\<close> does at start-up) and returns the error to its caller; when the body could be
  read the error is "X-clone response: " followed by the body, so its message is not empty.
\<close>

theorem postResponseToXClone_http_failure:
  assumes "find_response w responseId = Some response"
      and "find_threat w (resp_threatId response) = Some threat"
      and "find_post w (threat_detectedPostId threat) = Some target"
      and "post_externalPostId target = Some (c # cs)"
      and "fetch_reply e = Fetched status body" and "\<not> res_ok status"
      and "ws_bound w"
  shows "\<exists>err w'. postResponseToXClone e w responseId = (Inl err, w')
           \<and> map_option resp_status (find_response w' responseId) = Some FAILED
           \<and> ws_events w' =
               ws_events w @ [response_failed responseId (resp_threatId response) (message err)]
           \<and> (\<forall>text. body = Inr text \<longrightarrow>
                 err = Error (js ''X-clone response: '' @ text) \<and> message err \<noteq> [])"
proof -
  define err where
    "err = (case body of Inl err \<Rightarrow> err | Inr text \<Rightarrow> Error (js ''X-clone response: '' @ text))"
  define w1 where
    "w1 = w\<lparr>http_log := http_log w @
                  [\<lparr>req_url = XCLONE_API_URL e @ js ''/api/twitter/tweets'',
                    req_text = js ''@'' @ post_authorHandle target @ js '' '' @ resp_content response,
                    req_quote_tweet = c # cs, req_language = js ''ENGLISH'',
                    req_is_konfam_response = True\<rparr>]\<rparr>"
  define w' where
    "w' = wsBroadcast (update_response w1 responseId (\<lambda>r. r\<lparr>resp_status := FAILED\<rparr>))
            (response_failed responseId (resp_threatId response) (message err))"
  have attempt: "post_attempt e w1 responseId response = (Inl err, w1)"
    using post_attempt_not_ok[OF assms(5,6)] by (simp add: err_def)
  have run: "postResponseToXClone e w responseId = (Inl err, w')"
    using postResponseToXClone_failed_attempt[OF assms(1-4) attempt[unfolded w1_def]]
    by (simp add: w'_def w1_def)
  have "find_response w1 responseId = Some response"
    using assms(1) by (simp add: find_response_def w1_def)
  then have failed: "map_option resp_status (find_response w' responseId) = Some FAILED"
    by (simp add: w'_def find_response_update)
  have events: "ws_events w' =
      ws_events w @ [response_failed responseId (resp_threatId response) (message err)]"
    using assms(7) by (simp add: w'_def update_response_def w1_def)
  have "err = Error (js ''X-clone response: '' @ tx) \<and> message err \<noteq> []" if "body = Inr tx" for tx
    using that by (simp add: err_def js_def)
  with run failed events show ?thesis by blast
qed

lemma pending_lookups:
  "find_response pending_world (js ''r1'') = Some sample_response"
  "find_threat pending_world (resp_threatId sample_response) = Some sample_threat"
  "find_post pending_world (threat_detectedPostId sample_threat) = Some sample_post"
  by (simp_all add: find_response_def find_threat_def find_post_def
        pending_world_def sample_world_def sample_response_def sample_threat_def sample_post_def)

theorem postResponseToXClone_http_failure_witness:
  "\<exists>w'. postResponseToXClone http500_env pending_world (js ''r1'') =
          (Inl (Error (js ''X-clone response: Internal Server Error'')), w')
       \<and> map_option resp_status (find_response w' (js ''r1'')) = Some FAILED
       \<and> ws_events w' =
           [response_failed (js ''r1'') (js ''t1'') (js ''X-clone response: Internal Server Error'')]"
proof -
  have ext: "post_externalPostId sample_post = Some (hd (js ''x1'') # tl (js ''x1''))"
    by (simp add: sample_post_def js_def)
  have reply: "fetch_reply http500_env = Fetched 500 (Inr (js ''Internal Server Error''))"
    by (simp add: http500_env_def sample_env_def)
  have bad: "\<not> res_ok 500" by (simp add: res_ok_def)
  have bound: "ws_bound pending_world" "ws_events pending_world = []"
    by (simp_all add: pending_world_def sample_world_def)
  have tid: "resp_threatId sample_response = js ''t1''"
    by (simp add: sample_response_def)
  have msg: "js ''X-clone response: '' @ js ''Internal Server Error''
             = js ''X-clone response: Internal Server Error''"
    by (simp add: js_def)
  from postResponseToXClone_http_failure[OF pending_lookups ext reply bad bound(1)]
  obtain err w' where
    "postResponseToXClone http500_env pending_world (js ''r1'') = (Inl err, w')"
    "map_option resp_status (find_response w' (js ''r1'')) = Some FAILED"
    "ws_events w' = ws_events pending_world
                    @ [response_failed (js ''r1'') (resp_threatId sample_response) (message err)]"
    "err = Error (js ''X-clone response: '' @ js ''Internal Server Error'')"
    by blast
  then show ?thesis
    by (simp add: bound tid msg)
qed

text \<open>
  C10. When \<open>postResponseToXClone\<close> throws before the request (the response is not found,
  or the external post id is missing), nothing is written: the response rows and the
  events are as before. More generally, a run that sent no request has changed no response
  row and emitted no event, so the FAILED transition and the \<open>response_failed\<close> event occur
  only after the request.
\<close>

theorem postResponseToXClone_early_throw_changes_nothing:
  assumes "postResponseToXClone e w responseId = (res, w')"
  shows "(find_response w responseId = None \<longrightarrow>
            res = Inl (Error (js ''Response not found'')) \<and> w' = w)
         \<and> (\<forall>response threat target.
               find_response w responseId = Some response
               \<and> find_threat w (resp_threatId response) = Some threat
               \<and> find_post w (threat_detectedPostId threat) = Some target
               \<and> (post_externalPostId target = None \<or> post_externalPostId target = Some [])
               \<longrightarrow> res = Inl (Error (js ''Detected post not found for threat'')) \<and> w' = w)
         \<and> (http_log w' = http_log w \<longrightarrow>
               responses w' = responses w \<and> ws_events w' = ws_events w)"
proof (intro conjI allI impI)
  assume "find_response w responseId = None"
  then show "res = Inl (Error (js ''Response not found''))" "w' = w"
    using assms by (simp_all add: postResponseToXClone_def)
next
  fix response threat target
  assume "find_response w responseId = Some response
          \<and> find_threat w (resp_threatId response) = Some threat
          \<and> find_post w (threat_detectedPostId threat) = Some target
          \<and> (post_externalPostId target = None \<or> post_externalPostId target = Some [])"
  then show "res = Inl (Error (js ''Detected post not found for threat''))" "w' = w"
    using assms by (auto simp: postResponseToXClone_def)
next
  assume same: "http_log w' = http_log w"
  have "responses w' = responses w \<and> ws_events w' = ws_events w"
  proof (cases "find_response w responseId")
    case None
    then show ?thesis using assms by (simp add: postResponseToXClone_def)
  next
    case (Some response)
    show ?thesis
    proof (cases "find_threat w (resp_threatId response)")
      case None
      then show ?thesis using assms Some by (simp add: postResponseToXClone_def)
    next
      case threat: (Some threat)
      show ?thesis
      proof (cases "find_post w (threat_detectedPostId threat)")
        case None
        then show ?thesis using assms Some threat by (simp add: postResponseToXClone_def)
      next
        case target: (Some target)
        show ?thesis
        proof (cases "post_externalPostId target")
          case None
          then show ?thesis using assms Some threat target by (simp add: postResponseToXClone_def)
        next
          case ext: (Some x)
          show ?thesis
          proof (cases x)
            case Nil
            then show ?thesis
              using assms Some threat target ext by (simp add: postResponseToXClone_def)
          next
            case (Cons c cs)
            define payload where
              "payload = \<lparr>req_url = XCLONE_API_URL e @ js ''/api/twitter/tweets'',
                    req_text = js ''@'' @ post_authorHandle target @ js '' '' @ resp_content response,
                    req_quote_tweet = c # cs, req_language = js ''ENGLISH'',
                    req_is_konfam_response = True\<rparr>"
            obtain r2 w2 where
              att: "post_attempt e (w\<lparr>http_log := http_log w @ [payload]\<rparr>) responseId response
                    = (r2, w2)"
              by (cases "post_attempt e (w\<lparr>http_log := http_log w @ [payload]\<rparr>) responseId response")
                 blast
            have "http_log w2 = http_log w @ [payload]"
              using post_attempt_no_request[OF att] by simp
            moreover have "http_log w' = http_log w2"
              using assms Some threat target ext Cons att
              by (auto simp: postResponseToXClone_def Let_def payload_def update_response_def
                       split: sum.splits)
            ultimately show ?thesis using same by simp
          qed
        qed
      qed
    qed
  qed
  then show "responses w' = responses w" "ws_events w' = ws_events w" by simp_all
qed

theorem postResponseToXClone_early_throw_changes_nothing_witness:
  "postResponseToXClone http500_env sample_world (js ''r1'')
     = (Inl (Error (js ''Response not found'')), sample_world)
   \<and> postResponseToXClone http500_env orphan_world (js ''r1'')
     = (Inl (Error (js ''Detected post not found for threat'')), orphan_world)"
proof -
  have none: "find_response sample_world (js ''r1'') = None"
    by (simp add: find_response_def sample_world_def)
  have a: "postResponseToXClone http500_env sample_world (js ''r1'')
           = (Inl (Error (js ''Response not found'')), sample_world)"
    using postResponseToXClone_early_throw_changes_nothing
            [where e = http500_env and w = sample_world and responseId = "js ''r1''",
             OF surjective_pairing] none
    by (simp add: prod_eq_iff)
  have b: "postResponseToXClone http500_env orphan_world (js ''r1'')
           = (Inl (Error (js ''Detected post not found for threat'')), orphan_world)"
    using postResponseToXClone_early_throw_changes_nothing
            [where e = http500_env and w = orphan_world and responseId = "js ''r1''",
             OF surjective_pairing] orphan_lookups
    by (simp add: prod_eq_iff)
  from a b show ?thesis by simp
qed

section \<open>Response synthesizer: properties\<close>

lemma dropWhile_ws_prefix:
  "list_all is_ws pre \<Longrightarrow> \<not> is_ws x \<Longrightarrow> dropWhile is_ws (pre @ x # xs) = x # xs"
  by (induction pre) auto

lemma trim_core:
  assumes "list_all is_ws pre" and "list_all is_ws suf" and "\<not> is_ws x" and "\<not> is_ws y"
  shows "trim (pre @ x # mid @ y # suf) = x # mid @ [y]"
proof -
  have "dropWhile is_ws (pre @ x # mid @ y # suf) = x # mid @ y # suf"
    using dropWhile_ws_prefix[OF assms(1,3)] by simp
  moreover have "rev (x # mid @ y # suf) = rev suf @ y # rev mid @ [x]"
    by simp
  moreover have "dropWhile is_ws (rev suf @ y # rev mid @ [x]) = y # rev mid @ [x]"
    using dropWhile_ws_prefix[of "rev suf" y "rev mid @ [x]"] assms(2,4)
    by (simp add: list_all_iff)
  ultimately show ?thesis by (simp add: trim_def)
qed

lemma verifiedSourcesHTML_end: "\<exists>ys. verifiedSourcesHTML srcs = ys @ [0x3E]"
proof (cases "length srcs > 0")
  case True
  have "js ''</ul>'' = js ''</ul'' @ [0x3E]" by (simp add: js_def)
  then have "verifiedSourcesHTML srcs =
      (js ''<ul>'' @
        join [] (map (\<lambda>src. js ''<li><a href=\"'' @ src @ js ''\" target=\"_blank\">'' @ src @
                            js ''</a></li>'') srcs) @ js ''</ul'') @ [0x3E]"
    using True by (simp add: verifiedSourcesHTML_def)
  then show ?thesis by blast
next
  case False
  have "js ''<p>No verified press sources available yet.</p>''
        = js ''<p>No verified press sources available yet.</p'' @ [0x3E]"
    by (simp add: js_def)
  then show ?thesis using False by (auto simp: verifiedSourcesHTML_def)
qed

text \<open>The trimmed template: the leading newline and the trailing newline and blanks go.\<close>

lemma htmlContent_explicit:
  "htmlContent rawContent (verifiedSourcesHTML srcs)
   = js ''<p>'' @ rawContent @ html_footer @ verifiedSourcesHTML srcs"
proof -
  obtain ys where ys: "verifiedSourcesHTML srcs = ys @ [0x3E]"
    using verifiedSourcesHTML_end by blast
  have ws: "list_all is_ws nl" "list_all is_ws (nl @ js ''  '')"
    by (simp_all add: nl_def js_def is_ws_def)
  have nws: "\<not> is_ws 0x3C" "\<not> is_ws 0x3E"
    by (simp_all add: is_ws_def)
  have p: "js ''<p>'' = 0x3C # js ''p>''" by (simp add: js_def)
  have "html_template rawContent (verifiedSourcesHTML srcs)
        = nl @ 0x3C # (js ''p>'' @ rawContent @ html_footer @ ys) @ 0x3E # (nl @ js ''  '')"
    by (simp add: html_template_def ys p)
  then have "htmlContent rawContent (verifiedSourcesHTML srcs)
        = 0x3C # (js ''p>'' @ rawContent @ html_footer @ ys) @ [0x3E]"
    using trim_core[OF ws nws, of "js ''p>'' @ rawContent @ html_footer @ ys"]
    by (simp add: htmlContent_def)
  then show ?thesis by (simp add: ys p)
qed

lemma enforce_limit_length: "length (enforce_limit s) \<le> 581"
  by (simp add: enforce_limit_def ellipsis_def)

lemma upsert_response_stored:
  assumes "upsert_response w threatId upd created = (r, w')"
      and "\<And>x. resp_threatId (upd x) = resp_threatId x"
      and "resp_threatId created = threatId"
  shows "find (\<lambda>r. resp_threatId r = threatId) (responses w') = Some r"
    and "(\<exists>old. r = upd old) \<or> r = created"
    and "threats w' = threats w" and "posts w' = posts w" and "brands w' = brands w"
    and "oracle_log w' = oracle_log w" and "ws_events w' = ws_events w"
    and "ws_bound w' = ws_bound w" and "http_log w' = http_log w"
proof -
  let ?own = "\<lambda>r. resp_threatId r = threatId"
  show "find ?own (responses w') = Some r"
  proof (cases "find ?own (responses w)")
    case None
    then show ?thesis
      using assms find_append_new[of ?own "responses w" created]
      by (auto simp: upsert_response_def)
  next
    case (Some old)
    then show ?thesis
      using assms find_map_same[of ?own upd "responses w"]
      by (auto simp: upsert_response_def)
  qed
  show "(\<exists>old. r = upd old) \<or> r = created"
    using assms(1) by (auto simp: upsert_response_def split: option.splits)
  show "threats w' = threats w" "posts w' = posts w" "brands w' = brands w"
    "oracle_log w' = oracle_log w" "ws_events w' = ws_events w"
    "ws_bound w' = ws_bound w" "http_log w' = http_log w"
    using assms(1) by (auto simp: upsert_response_def split: option.splits)
qed

text \<open>What \<open>generateResponseForFalse\<close> does once the threat, its post and its brand are loaded.\<close>

lemma generateResponseForFalse_found:
  assumes "find_threat w threatId = Some threat"
      and "find_post w (threat_detectedPostId threat) = Some detectedPost"
      and "find_brand w (threat_brandId threat) = Some brand"
  shows "correction_reply e = CallThrows err \<Longrightarrow>
           generateResponseForFalse e w threatId =
             (Inl err, w\<lparr>oracle_log := oracle_log w @
                            [correction_request (brand_name brand) (post_content detectedPost)]\<rparr>)"
    and "correction_reply e = Completion c \<Longrightarrow>
           \<exists>r w'. generateResponseForFalse e w threatId = (Inr r, w')
             \<and> find (\<lambda>r. resp_threatId r = threatId) (responses w') = Some r
             \<and> resp_threatId r = threatId
             \<and> resp_status r = PENDING
             \<and> (\<exists>srcs. resp_content r =
                   htmlContent (enforce_limit (correction_text (brand_name brand) c))
                     (verifiedSourcesHTML srcs))
             \<and> oracle_log w' = oracle_log w @
                   [correction_request (brand_name brand) (post_content detectedPost)]
             \<and> threats w' = threats w \<and> posts w' = posts w \<and> brands w' = brands w
             \<and> http_log w' = http_log w \<and> ws_bound w' = ws_bound w
             \<and> (\<exists>ev. ws_events w' = ws_events w @ (if ws_bound w then [ev] else []))"
proof -
  assume "correction_reply e = CallThrows err"
  then show "generateResponseForFalse e w threatId =
             (Inl err, w\<lparr>oracle_log := oracle_log w @
                            [correction_request (brand_name brand) (post_content detectedPost)]\<rparr>)"
    using assms by (simp add: generateResponseForFalse_def Let_def)
next
  assume reply: "correction_reply e = Completion c"
  define srcs where
    "srcs = map item_url (take 3 (evidence_by_ids e
              (case threat_verificationEvidenceIds threat of None \<Rightarrow> [] | Some ids \<Rightarrow> ids)))"
  define content where
    "content = htmlContent (enforce_limit (correction_text (brand_name brand) c))
                 (verifiedSourcesHTML srcs)"
  define confidence where
    "confidence = (case threat_verificationConfidence threat of None \<Rightarrow> Fin 80 | Some n \<Rightarrow> n)"
  define w1 where
    "w1 = w\<lparr>oracle_log := oracle_log w @
                 [correction_request (brand_name brand) (post_content detectedPost)]\<rparr>"
  define created where
    "created = \<lparr>resp_id = new_response_id e, resp_threatId = threatId,
                 resp_platform = post_platform detectedPost, resp_content = content,
                 resp_sourcesUsed = srcs, resp_confidence = confidence, resp_status = PENDING,
                 resp_autoGenerated = True, resp_postedAt = None\<rparr>"
  define upd where
    "upd = (\<lambda>r::Response. r\<lparr>resp_content := content, resp_sourcesUsed := srcs,
                 resp_confidence := confidence, resp_status := PENDING,
                 resp_autoGenerated := True\<rparr>)"
  obtain r w2 where up: "upsert_response w1 threatId upd created = (r, w2)"
    by (cases "upsert_response w1 threatId upd created") blast
  define ev where
    "ev = response_ready threatId (resp_id r)
            (take 240 (enforce_limit (correction_text (brand_name brand) c)))
            (resp_confidence r) srcs"
  have run: "generateResponseForFalse e w threatId = (Inr r, wsBroadcast w2 ev)"
    using assms reply up
    by (simp add: generateResponseForFalse_def Let_def srcs_def[symmetric]
          content_def[symmetric] confidence_def[symmetric] w1_def[symmetric]
          created_def[symmetric] upd_def[symmetric] ev_def)
  have keep: "\<And>x. resp_threatId (upd x) = resp_threatId x" "resp_threatId created = threatId"
    by (simp_all add: upd_def created_def)
  note st = upsert_response_stored[OF up keep]
  have u: "resp_status (upd x) = PENDING \<and> resp_content (upd x) = content" for x
    by (simp add: upd_def)
  have cr: "resp_status created = PENDING \<and> resp_content created = content"
    by (simp add: created_def)
  have shape: "resp_threatId r = threatId \<and> resp_status r = PENDING \<and> resp_content r = content"
    using st(2) find_holds[OF st(1)] u cr by auto
  have frame: "threats w2 = threats w" "posts w2 = posts w" "brands w2 = brands w"
    "http_log w2 = http_log w" "ws_bound w2 = ws_bound w" "ws_events w2 = ws_events w"
    "oracle_log w2 = oracle_log w @
       [correction_request (brand_name brand) (post_content detectedPost)]"
    using st(3-9) by (simp_all add: w1_def)
  show "\<exists>r w'. generateResponseForFalse e w threatId = (Inr r, w')
             \<and> find (\<lambda>r. resp_threatId r = threatId) (responses w') = Some r
             \<and> resp_threatId r = threatId
             \<and> resp_status r = PENDING
             \<and> (\<exists>srcs. resp_content r =
                   htmlContent (enforce_limit (correction_text (brand_name brand) c))
                     (verifiedSourcesHTML srcs))
             \<and> oracle_log w' = oracle_log w @
                   [correction_request (brand_name brand) (post_content detectedPost)]
             \<and> threats w' = threats w \<and> posts w' = posts w \<and> brands w' = brands w
             \<and> http_log w' = http_log w \<and> ws_bound w' = ws_bound w
             \<and> (\<exists>ev. ws_events w' = ws_events w @ (if ws_bound w then [ev] else []))"
    apply (rule exI[of _ r], rule exI[of _ "wsBroadcast w2 ev"])
    using run st(1) shape frame
    by (auto simp: wsBroadcast_def content_def)
qed

lemma generateResponseForFalse_returns:
  assumes "generateResponseForFalse e w threatId = (Inr r, w')"
  shows "\<exists>threat detectedPost brand c.
           find_threat w threatId = Some threat
           \<and> find_post w (threat_detectedPostId threat) = Some detectedPost
           \<and> find_brand w (threat_brandId threat) = Some brand
           \<and> correction_reply e = Completion c"
proof (cases "find_threat w threatId")
  case None
  then show ?thesis using assms by (simp add: generateResponseForFalse_def)
next
  case threat: (Some threat)
  show ?thesis
  proof (cases "find_post w (threat_detectedPostId threat)")
    case None
    then show ?thesis using assms threat by (simp add: generateResponseForFalse_def)
  next
    case post: (Some detectedPost)
    show ?thesis
    proof (cases "find_brand w (threat_brandId threat)")
      case None
      then show ?thesis using assms threat post by (simp add: generateResponseForFalse_def)
    next
      case brand: (Some brand)
      show ?thesis
      proof (cases "correction_reply e")
        case (CallThrows err)
        then show ?thesis
          using assms generateResponseForFalse_found(1)[OF threat post brand CallThrows] by simp
      next
        case (Completion c)
        with threat post brand show ?thesis by blast
      qed
    qed
  qed
qed

lemma sample_lookups:
  "find_threat sample_world (js ''t1'') = Some sample_threat"
  "find_post sample_world (threat_detectedPostId sample_threat) = Some sample_post"
  "find_brand sample_world (threat_brandId sample_threat)
     = Some \<lparr>brand_id = js ''b1'', brand_name = js ''Zenith Bank''\<rparr>"
  by (simp_all add: find_threat_def find_post_def find_brand_def sample_world_def
        sample_threat_def sample_post_def)

lemma replicate_ends: "replicate (Suc (Suc n)) a = a # replicate n a @ [a]"
  by (simp add: replicate_append_same)

lemma long_text:
  "correction_text (js ''Zenith Bank'') (Some (replicate 581 0x61)) = replicate 581 0x61"
proof -
  have "replicate 581 (0x61::jschar) = 0x61 # replicate 579 0x61 @ [0x61]"
    using replicate_ends[of 579 "0x61::jschar"] by simp
  then have shape: "replicate 581 (0x61::jschar) = [] @ 0x61 # replicate 579 0x61 @ 0x61 # []"
    by simp
  have "\<not> is_ws 0x61" by (simp add: is_ws_def)
  then have "trim ([] @ 0x61 # replicate 579 0x61 @ 0x61 # []) = 0x61 # replicate 579 0x61 @ [0x61]"
    by (intro trim_core) simp_all
  then have "trim (replicate 581 0x61) = replicate 581 0x61"
    using shape by simp
  then show ?thesis
    by (simp add: correction_text_def split: list.splits)
qed

text \<open>
  C4 (as stated). The correction oracle answers with 581 characters: the text kept is 580 of
  them and the ellipsis, 581 characters, and the stored content, which wraps it in the HTML
  template, is longer than the budget of 580.
\<close>

theorem response_content_exceeds_budget_counterexample:
  "\<not> isl (fst (generateResponseForFalse long_env sample_world (js ''t1'')))
   \<and> 580 < length (resp_content
                     (projr (fst (generateResponseForFalse long_env sample_world (js ''t1'')))))
   \<and> length (enforce_limit (replicate 581 0x61)) = 581"
proof -
  have reply: "correction_reply long_env = Completion (Some (replicate 581 0x61))"
    by (simp add: long_env_def sample_env_def)
  from generateResponseForFalse_found(2)[OF sample_lookups reply]
  obtain r w' srcs where run: "generateResponseForFalse long_env sample_world (js ''t1'') = (Inr r, w')"
    and content: "resp_content r =
          htmlContent (enforce_limit (correction_text (js ''Zenith Bank'') (Some (replicate 581 0x61))))
            (verifiedSourcesHTML srcs)"
    by auto
  have len: "length (enforce_limit (replicate 581 (0x61::jschar))) = 581"
    by (simp add: enforce_limit_def ellipsis_def)
  have "580 < length (resp_content r)"
    unfolding content long_text htmlContent_explicit using len by simp
  with run len show ?thesis by simp
qed

text \<open>
  C4 (amended). For every synthesized Response the stored content is the HTML template
  around the correction text: it starts with \<open><p>\<close>, then the correction text, then the
  fixed footer and the source list. The correction text is the oracle's trimmed output (or the
  templated sentence) when that has at most 580 characters, and otherwise its first 580
  characters followed by the ellipsis; it never has more than 581 characters.
\<close>

theorem response_text_truncated:
  assumes "generateResponseForFalse e w threatId = (Inr r, w')"
  shows "\<exists>threat brand c srcs.
           find_threat w threatId = Some threat
           \<and> find_brand w (threat_brandId threat) = Some brand
           \<and> correction_reply e = Completion c
           \<and> resp_content r =
               js ''<p>'' @ enforce_limit (correction_text (brand_name brand) c) @ html_footer
                 @ verifiedSourcesHTML srcs
           \<and> length (enforce_limit (correction_text (brand_name brand) c)) \<le> 581
           \<and> (length (correction_text (brand_name brand) c) \<le> 580 \<longrightarrow>
                 enforce_limit (correction_text (brand_name brand) c)
                 = correction_text (brand_name brand) c)
           \<and> (580 < length (correction_text (brand_name brand) c) \<longrightarrow>
                 enforce_limit (correction_text (brand_name brand) c)
                 = take 580 (correction_text (brand_name brand) c) @ ellipsis)"
proof -
  obtain threat detectedPost brand c where
    found: "find_threat w threatId = Some threat"
      "find_post w (threat_detectedPostId threat) = Some detectedPost"
      "find_brand w (threat_brandId threat) = Some brand"
    and reply: "correction_reply e = Completion c"
    using generateResponseForFalse_returns[OF assms] by blast
  obtain srcs where
    "resp_content r = htmlContent (enforce_limit (correction_text (brand_name brand) c))
                        (verifiedSourcesHTML srcs)"
    using generateResponseForFalse_found(2)[OF found reply] assms by auto
  then have "resp_content r =
      js ''<p>'' @ enforce_limit (correction_text (brand_name brand) c) @ html_footer
        @ verifiedSourcesHTML srcs"
    by (simp add: htmlContent_explicit)
  moreover have "length (correction_text (brand_name brand) c) \<le> 580 \<longrightarrow>
      enforce_limit (correction_text (brand_name brand) c) = correction_text (brand_name brand) c"
    by (simp add: enforce_limit_def)
  moreover have "580 < length (correction_text (brand_name brand) c) \<longrightarrow>
      enforce_limit (correction_text (brand_name brand) c)
      = take 580 (correction_text (brand_name brand) c) @ ellipsis"
    by (simp add: enforce_limit_def)
  ultimately show ?thesis
    using found(1,3) reply enforce_limit_length by blast
qed

theorem response_text_truncated_witness:
  "\<exists>srcs. resp_content (projr (fst (generateResponseForFalse long_env sample_world (js ''t1''))))
          = js ''<p>'' @ (replicate 580 0x61 @ ellipsis) @ html_footer @ verifiedSourcesHTML srcs"
proof -
  have reply: "correction_reply long_env = Completion (Some (replicate 581 0x61))"
    by (simp add: long_env_def sample_env_def)
  obtain r w' where run: "generateResponseForFalse long_env sample_world (js ''t1'') = (Inr r, w')"
    using generateResponseForFalse_found(2)[OF sample_lookups reply] by blast
  from response_text_truncated[OF run] obtain brand c srcs where
    b: "find_brand sample_world (threat_brandId sample_threat) = Some brand"
    and c: "correction_reply long_env = Completion c"
    and content: "resp_content r =
               js ''<p>'' @ enforce_limit (correction_text (brand_name brand) c) @ html_footer
                 @ verifiedSourcesHTML srcs"
    using sample_lookups(1) by auto
  have "brand_name brand = js ''Zenith Bank''" "c = Some (replicate 581 0x61)"
    using b c sample_lookups(3) reply by auto
  then have "resp_content r =
      js ''<p>'' @ (replicate 580 0x61 @ ellipsis) @ html_footer @ verifiedSourcesHTML srcs"
    using content by (simp add: long_text enforce_limit_def)
  with run show ?thesis by auto
qed

section \<open>Orchestrator and worker: properties\<close>

lemma verifyThreat_frame:
  assumes "verifyThreat e w threatId = (res, w1)"
  shows "posts w1 = posts w" and "brands w1 = brands w" and "responses w1 = responses w"
    and "ws_events w1 = ws_events w" and "ws_bound w1 = ws_bound w" and "http_log w1 = http_log w"
proof -
  have "posts w1 = posts w \<and> brands w1 = brands w \<and> responses w1 = responses w
        \<and> ws_events w1 = ws_events w \<and> ws_bound w1 = ws_bound w \<and> http_log w1 = http_log w"
  proof (cases "find_threat w threatId")
    case None
    then show ?thesis using assms by (simp add: verifyThreat_def)
  next
    case threat: (Some threat)
    show ?thesis
    proof (cases "find_post w (threat_detectedPostId threat)")
      case None
      then show ?thesis using assms threat by (simp add: verifyThreat_def)
    next
      case (Some detectedPost)
      then show ?thesis
        using assms threat
        by (auto simp: verifyThreat_def Let_def update_threat_def split: sum.splits prod.splits if_splits)
    qed
  qed
  then show "posts w1 = posts w" and "brands w1 = brands w" and "responses w1 = responses w"
    and "ws_events w1 = ws_events w" and "ws_bound w1 = ws_bound w" and "http_log w1 = http_log w"
    by simp_all
qed

text \<open>After a verification, the threat, its post and its brand are still found.\<close>

lemma verified_lookups:
  assumes "find_threat w threatId = Some threat"
      and "find_post w (threat_detectedPostId threat) = Some detectedPost"
      and "find_brand w (threat_brandId threat) = Some brand"
      and "verifyThreat e w threatId = (Inr v, w1)"
  shows "find_threat w1 threatId = Some (set_verification v threat)"
    and "find_post w1 (threat_detectedPostId (set_verification v threat)) = Some detectedPost"
    and "find_brand w1 (threat_brandId (set_verification v threat)) = Some brand"
proof -
  show "find_threat w1 threatId = Some (set_verification v threat)"
    using verifyThreat_found[OF assms(1,2), of e] assms(4) by auto
  show "find_post w1 (threat_detectedPostId (set_verification v threat)) = Some detectedPost"
    using assms(2) verifyThreat_frame(1)[OF assms(4)]
    by (simp add: find_post_def set_verification_def)
  show "find_brand w1 (threat_brandId (set_verification v threat)) = Some brand"
    using assms(3) verifyThreat_frame(2)[OF assms(4)]
    by (simp add: find_brand_def set_verification_def)
qed

text \<open>A publication touches neither the oracle nor the text of any response.\<close>

lemma post_attempt_frame:
  assumes "post_attempt e w responseId response = (res, w')"
  shows "oracle_log w' = oracle_log w"
    and "\<exists>g. responses w' = map g (responses w)
             \<and> (\<forall>x. resp_threatId (g x) = resp_threatId x \<and> resp_content (g x) = resp_content x)"
proof -
  have id: "responses w = map (\<lambda>x. x) (responses w)" by simp
  show "oracle_log w' = oracle_log w"
    using assms
    by (auto simp: post_attempt_def Let_def update_response_def
             split: fetch_outcome.splits sum.splits if_splits)
  show "\<exists>g. responses w' = map g (responses w)
             \<and> (\<forall>x. resp_threatId (g x) = resp_threatId x \<and> resp_content (g x) = resp_content x)"
  proof (cases "\<exists>tx status. fetch_reply e = Fetched status (Inr tx) \<and> res_ok status")
    case True
    then have "responses w' =
        map (\<lambda>r. if resp_id r = responseId
                  then r\<lparr>resp_status := POSTED, resp_postedAt := Some (clock e)\<rparr> else r)
            (responses w)"
      using assms by (auto simp: post_attempt_def Let_def update_response_def)
    then show ?thesis
      by (intro exI[of _ "\<lambda>r. if resp_id r = responseId
                  then r\<lparr>resp_status := POSTED, resp_postedAt := Some (clock e)\<rparr> else r"]) simp
  next
    case False
    then have "responses w' = responses w"
      using assms
      by (auto simp: post_attempt_def split: fetch_outcome.splits sum.splits if_splits)
    then show ?thesis using id by (intro exI[of _ "\<lambda>x. x"]) simp
  qed
qed

lemma postResponseToXClone_frame:
  assumes "postResponseToXClone e w responseId = (res, w')"
  shows "oracle_log w' = oracle_log w"
    and "\<exists>g. responses w' = map g (responses w)
             \<and> (\<forall>x. resp_threatId (g x) = resp_threatId x \<and> resp_content (g x) = resp_content x)"
proof -
  let ?keeps = "\<lambda>w'. \<exists>g. responses w' = map g (responses w)
             \<and> (\<forall>x. resp_threatId (g x) = resp_threatId x \<and> resp_content (g x) = resp_content x)"
  have same: "?keeps w" by (intro exI[of _ "\<lambda>x. x"]) simp
  have "oracle_log w' = oracle_log w \<and> ?keeps w'"
  proof (cases "find_response w responseId")
    case None
    then show ?thesis using assms same by (simp add: postResponseToXClone_def)
  next
    case (Some response)
    show ?thesis
    proof (cases "find_threat w (resp_threatId response)")
      case None
      then show ?thesis using assms Some same by (simp add: postResponseToXClone_def)
    next
      case threat: (Some threat)
      show ?thesis
      proof (cases "find_post w (threat_detectedPostId threat)")
        case None
        then show ?thesis using assms Some threat same by (simp add: postResponseToXClone_def)
      next
        case target: (Some target)
        show ?thesis
        proof (cases "post_externalPostId target")
          case None
          then show ?thesis
            using assms Some threat target same by (simp add: postResponseToXClone_def)
        next
          case ext: (Some x)
          show ?thesis
          proof (cases x)
            case Nil
            then show ?thesis
              using assms Some threat target ext same by (simp add: postResponseToXClone_def)
          next
            case (Cons c cs)
            define payload where
              "payload = \<lparr>req_url = XCLONE_API_URL e @ js ''/api/twitter/tweets'',
                    req_text = js ''@'' @ post_authorHandle target @ js '' '' @ resp_content response,
                    req_quote_tweet = c # cs, req_language = js ''ENGLISH'',
                    req_is_konfam_response = True\<rparr>"
            define w1 where "w1 = w\<lparr>http_log := http_log w @ [payload]\<rparr>"
            obtain r2 w2 where att: "post_attempt e w1 responseId response = (r2, w2)"
              by (cases "post_attempt e w1 responseId response") blast
            obtain g where g: "responses w2 = map g (responses w)"
              "\<And>x. resp_threatId (g x) = resp_threatId x" "\<And>x. resp_content (g x) = resp_content x"
              using post_attempt_frame(2)[OF att] by (auto simp: w1_def)
            have log2: "oracle_log w2 = oracle_log w"
              using post_attempt_frame(1)[OF att] by (simp add: w1_def)
            show ?thesis
            proof (cases r2)
              case (Inr u)
              then have "w' = w2"
                using assms Some threat target ext Cons att
                by (simp add: postResponseToXClone_def Let_def payload_def[symmetric]
                      w1_def[symmetric])
              then show ?thesis using g log2 by blast
            next
              case (Inl err)
              let ?f = "\<lambda>r. if resp_id r = responseId then r\<lparr>resp_status := FAILED\<rparr> else r"
              have "w' = wsBroadcast (update_response w2 responseId (\<lambda>r. r\<lparr>resp_status := FAILED\<rparr>))
                           (response_failed responseId (resp_threatId response) (message err))"
                using assms Some threat target ext Cons att Inl
                by (simp add: postResponseToXClone_def Let_def payload_def[symmetric]
                      w1_def[symmetric])
              then have "responses w' = map (?f \<circ> g) (responses w)" "oracle_log w' = oracle_log w"
                using g(1) log2 by (simp_all add: update_response_def)
              moreover have "resp_threatId ((?f \<circ> g) x) = resp_threatId x
                             \<and> resp_content ((?f \<circ> g) x) = resp_content x" for x
                using g(2,3) by simp
              ultimately show ?thesis by blast
            qed
          qed
        qed
      qed
    qed
  qed
  then show "oracle_log w' = oracle_log w" and "?keeps w'" by simp_all
qed

text \<open>The two ways of \<open>handleThreatVerifyRespond\<close> after a verification; \<open>respond\<close> names its test.\<close>

lemma handleThreatVerifyRespond_ways:
  assumes "find_threat w threatId = Some threat"
      and "find_post w (threat_detectedPostId threat) = Some detectedPost"
      and "find_brand w (threat_brandId threat) = Some brand"
      and "verifyThreat e w threatId = (Inr v, w1)"
      and "handleThreatVerifyRespond e w threatId autopost = (res, w2)"
      and "respond \<longleftrightarrow> v_verificationStatus v = JStr (js ''FALSE'')
                       \<or> v_verificationStatus v = JStr (js ''UNVERIFIED'')"
  shows "(oracle_log w2 = oracle_log w1 @
            [correction_request (brand_name brand) (post_content detectedPost)] \<longleftrightarrow> respond)
         \<and> (respond \<longrightarrow>
              (\<forall>c. correction_reply e = Completion c \<longrightarrow>
                 (\<exists>r srcs. find (\<lambda>r. resp_threatId r = threatId) (responses w2) = Some r
                    \<and> resp_content r =
                        htmlContent (enforce_limit (correction_text (brand_name brand) c))
                          (verifiedSourcesHTML srcs)
                    \<and> (\<not> autopost \<longrightarrow>
                          resp_status r = PENDING \<and> res = Inr (responded (resp_id r))))))
         \<and> (\<not> respond \<longrightarrow>
              res = Inr (no_response_needed (v_verificationStatus v))
              \<and> responses w2 = responses w
              \<and> oracle_log w2 = oracle_log w1
              \<and> ws_events w2 = ws_events w @
                  (if ws_bound w
                   then [verification_complete threatId (js ''VERIFIED_TRUE'')
                           ([0x2705] @ js '' Verified as true '' @ [0x2014] @
                            js '' no response needed'')]
                   else []))"
proof (cases respond)
  case False
  then have "res = Inr (no_response_needed (v_verificationStatus v))"
    and "w2 = wsBroadcast w1
               (verification_complete threatId (js ''VERIFIED_TRUE'')
                  ([0x2705] @ js '' Verified as true '' @ [0x2014] @ js '' no response needed''))"
    using assms(4,5,6) by (auto simp: handleThreatVerifyRespond_def Let_def)
  then show ?thesis
    using False verifyThreat_frame[OF assms(4)] by simp
next
  case True
  note found1 = verified_lookups[OF assms(1-4)]
  show ?thesis
  proof (cases "correction_reply e")
    case (CallThrows err)
    have "generateResponseForFalse e w1 threatId =
            (Inl err, w1\<lparr>oracle_log := oracle_log w1 @
                           [correction_request (brand_name brand) (post_content detectedPost)]\<rparr>)"
      using generateResponseForFalse_found(1)[OF found1 CallThrows] .
    then have "w2 = w1\<lparr>oracle_log := oracle_log w1 @
                           [correction_request (brand_name brand) (post_content detectedPost)]\<rparr>"
      using assms(4,5,6) True by (auto simp: handleThreatVerifyRespond_def Let_def)
    then show ?thesis using True CallThrows by simp
  next
    case (Completion c)
    from generateResponseForFalse_found(2)[OF found1 Completion]
    obtain r wg srcs where gen: "generateResponseForFalse e w1 threatId = (Inr r, wg)"
      and stored: "find (\<lambda>r. resp_threatId r = threatId) (responses wg) = Some r"
      and pending: "resp_status r = PENDING"
      and content: "resp_content r =
                      htmlContent (enforce_limit (correction_text (brand_name brand) c))
                        (verifiedSourcesHTML srcs)"
      and log: "oracle_log wg = oracle_log w1 @
                  [correction_request (brand_name brand) (post_content detectedPost)]"
      by auto
    show ?thesis
    proof (cases autopost)
      case False
      then have "res = Inr (responded (resp_id r))" "w2 = wg"
        using assms(4,5,6) True gen by (auto simp: handleThreatVerifyRespond_def Let_def)
      then show ?thesis
        using True Completion stored pending content log by auto
    next
      case ap: True
      obtain rp wp where pub: "postResponseToXClone e wg (resp_id r) = (rp, wp)"
        by (cases "postResponseToXClone e wg (resp_id r)") blast
      have "w2 = wp"
        using assms(4,5,6) True gen ap pub
        by (auto simp: handleThreatVerifyRespond_def Let_def split: sum.splits)
      moreover obtain g where g: "responses wp = map g (responses wg)"
        "\<And>x. resp_threatId (g x) = resp_threatId x" "\<And>x. resp_content (g x) = resp_content x"
        using postResponseToXClone_frame(2)[OF pub] by auto
      moreover have "find (\<lambda>r. resp_threatId r = threatId) (map g (responses wg))
                     = map_option g (find (\<lambda>r. resp_threatId r = threatId) (responses wg))"
        by (rule find_map_keep) (simp add: g(2))
      ultimately have "find (\<lambda>r. resp_threatId r = threatId) (responses w2) = Some (g r)"
        "resp_content (g r) = htmlContent (enforce_limit (correction_text (brand_name brand) c))
                                (verifiedSourcesHTML srcs)"
        "oracle_log w2 = oracle_log w1 @
                  [correction_request (brand_name brand) (post_content detectedPost)]"
        using stored content log postResponseToXClone_frame(1)[OF pub] by simp_all
      then show ?thesis using True Completion ap by auto
    qed
  qed
qed

text \<open>
  The gate of \<open>handleThreatVerifyRespond\<close>. Once the threat is verified, the response
  synthesizer is run (its request to the correction oracle is made) exactly when the verdict
  is FALSE or UNVERIFIED; when the oracle answers, a Response holding the correction is then
  stored for the threat (PENDING unless it is auto-posted). With any other verdict, TRUE in
  particular, no oracle request is made and no Response is written; the only event is one
  \<open>verification_complete\<close> with status VERIFIED_TRUE, and the result is "no response needed".
\<close>

lemma handleThreatVerifyRespond_gate:
  assumes "find_threat w threatId = Some threat"
      and "find_post w (threat_detectedPostId threat) = Some detectedPost"
      and "find_brand w (threat_brandId threat) = Some brand"
      and "verifyThreat e w threatId = (Inr v, w1)"
      and "handleThreatVerifyRespond e w threatId autopost = (res, w2)"
  shows "(oracle_log w2 = oracle_log w1 @
            [correction_request (brand_name brand) (post_content detectedPost)]
          \<longleftrightarrow> v_verificationStatus v = JStr (js ''FALSE'')
              \<or> v_verificationStatus v = JStr (js ''UNVERIFIED''))
         \<and> (v_verificationStatus v = JStr (js ''FALSE'')
              \<or> v_verificationStatus v = JStr (js ''UNVERIFIED'') \<longrightarrow>
              (\<forall>c. correction_reply e = Completion c \<longrightarrow>
                 (\<exists>r srcs. find (\<lambda>r. resp_threatId r = threatId) (responses w2) = Some r
                    \<and> resp_content r =
                        htmlContent (enforce_limit (correction_text (brand_name brand) c))
                          (verifiedSourcesHTML srcs)
                    \<and> (\<not> autopost \<longrightarrow>
                          resp_status r = PENDING \<and> res = Inr (responded (resp_id r))))))
         \<and> (\<not> (v_verificationStatus v = JStr (js ''FALSE'')
                 \<or> v_verificationStatus v = JStr (js ''UNVERIFIED'')) \<longrightarrow>
              res = Inr (no_response_needed (v_verificationStatus v))
              \<and> responses w2 = responses w
              \<and> oracle_log w2 = oracle_log w1
              \<and> ws_events w2 = ws_events w @
                  (if ws_bound w
                   then [verification_complete threatId (js ''VERIFIED_TRUE'')
                           ([0x2705] @ js '' Verified as true '' @ [0x2014] @
                            js '' no response needed'')]
                   else []))"
  using handleThreatVerifyRespond_ways[OF assms refl] .

lemma true_env_verdict:
  "\<exists>w1. verifyThreat true_env sample_world (js ''t1'')
         = (Inr \<lparr>v_verificationStatus = JStr (js ''TRUE''), v_verificationConfidence = Fin 60,
                 v_verificationSummary = JStr (js ''LLM judge summary''),
                 v_evidenceIds = [js ''s2'']\<rparr>, w1)"
proof -
  have scraped: "findMany_scraped true_env b k = [strong_item]" for b k
    by (simp add: findMany_scraped_def true_env_def sample_env_def)
  have credible: "credible_items [strong_item] = [strong_item]"
    by (simp add: credible_items_def strong_item_def)
  have trimmed: "trim (js ''{\"verdict\":\"TRUE\"}'') = js ''{\"verdict\":\"TRUE\"}''"
    by (simp add: trim_def js_def is_ws_def)
  have judged: "judge true_env = Inr (JStr (js ''TRUE''), Fin 60, JStr (js ''LLM judge summary''))"
    by (simp add: judge_def true_env_def sample_env_def trimmed num_or_def)
       (simp add: js_def)
  show ?thesis
    using sample_lookups(1,2) scraped credible judged
    by (simp add: verifyThreat_def Let_def strong_item_def)
qed

lemma no_evidence_verdict:
  assumes "evidence_query e = (\<lambda>brandId keyword. [])"
  shows "\<exists>w1. verifyThreat e sample_world (js ''t1'')
         = (Inr \<lparr>v_verificationStatus = JStr (js ''UNVERIFIED''), v_verificationConfidence = Fin 35,
                 v_verificationSummary =
                   JStr (js ''No relevant coverage found among trusted sources.''),
                 v_evidenceIds = []\<rparr>, w1)"
  using sample_lookups(1,2) assms
  by (simp add: verifyThreat_def Let_def findMany_scraped_def)

lemma handleThreatVerifyRespond_gate_examples:
  "fst (handleThreatVerifyRespond true_env sample_world (js ''t1'') False)
     = Inr (no_response_needed (JStr (js ''TRUE'')))
   \<and> responses (snd (handleThreatVerifyRespond true_env sample_world (js ''t1'') False)) = []
   \<and> (\<exists>r. find (\<lambda>r. resp_threatId r = js ''t1'')
              (responses (snd (handleThreatVerifyRespond long_env sample_world (js ''t1'') False)))
            = Some r
          \<and> resp_status r = PENDING)"
proof -
  obtain w1 where ver: "verifyThreat true_env sample_world (js ''t1'')
         = (Inr \<lparr>v_verificationStatus = JStr (js ''TRUE''), v_verificationConfidence = Fin 60,
                 v_verificationSummary = JStr (js ''LLM judge summary''),
                 v_evidenceIds = [js ''s2'']\<rparr>, w1)"
    using true_env_verdict by blast
  have differ: "JStr (js ''TRUE'') \<noteq> JStr (js ''FALSE'')" "JStr (js ''TRUE'') \<noteq> JStr (js ''UNVERIFIED'')"
    by (simp_all add: js_def)
  have a: "fst (handleThreatVerifyRespond true_env sample_world (js ''t1'') False)
             = Inr (no_response_needed (JStr (js ''TRUE'')))
           \<and> responses (snd (handleThreatVerifyRespond true_env sample_world (js ''t1'') False)) = []"
    using handleThreatVerifyRespond_gate[OF sample_lookups ver surjective_pairing, of False] differ
    by (simp add: sample_world_def)
  have quiet: "evidence_query long_env = (\<lambda>brandId keyword. [])"
    by (simp add: long_env_def sample_env_def)
  obtain w1' where ver': "verifyThreat long_env sample_world (js ''t1'')
         = (Inr \<lparr>v_verificationStatus = JStr (js ''UNVERIFIED''), v_verificationConfidence = Fin 35,
                 v_verificationSummary =
                   JStr (js ''No relevant coverage found among trusted sources.''),
                 v_evidenceIds = []\<rparr>, w1')"
    using no_evidence_verdict[OF quiet] by blast
  have reply: "correction_reply long_env = Completion (Some (replicate 581 0x61))"
    by (simp add: long_env_def sample_env_def)
  have b: "\<exists>r. find (\<lambda>r. resp_threatId r = js ''t1'')
              (responses (snd (handleThreatVerifyRespond long_env sample_world (js ''t1'') False)))
            = Some r
          \<and> resp_status r = PENDING"
    using handleThreatVerifyRespond_gate[OF sample_lookups ver' surjective_pairing, of False] reply
    by auto
  from a b show ?thesis by simp
qed

lemma weak_env_verdict:
  "\<exists>w1. verifyThreat weak_env sample_world (js ''t1'')
         = (Inr \<lparr>v_verificationStatus = JStr (js ''FALSE''), v_verificationConfidence = Fin 80,
                 v_verificationSummary =
                   JStr (js ''No trusted outlet confirms this claim; appears unsubstantiated.''),
                 v_evidenceIds = [js ''s1'']\<rparr>, w1)"
proof -
  have scraped: "findMany_scraped weak_env b k = [weak_item]" for b k
    by (simp add: findMany_scraped_def weak_env_def sample_env_def)
  have credible: "credible_items [weak_item] = []"
    by (simp add: credible_items_def weak_item_def)
  show ?thesis
    using sample_lookups(1,2) scraped credible
    by (simp add: verifyThreat_def Let_def weak_item_def)
qed

text \<open>The sample threat with weak evidence only, while the correction oracle times out.\<close>

lemma weak_env_handle:
  "(\<exists>w1. verifyThreat weak_env sample_world (js ''t1'')
         = (Inr \<lparr>v_verificationStatus = JStr (js ''FALSE''), v_verificationConfidence = Fin 80,
                 v_verificationSummary =
                   JStr (js ''No trusted outlet confirms this claim; appears unsubstantiated.''),
                 v_evidenceIds = [js ''s1'']\<rparr>, w1))
   \<and> fst (handleThreatVerifyRespond weak_env sample_world (js ''t1'') autopost)
       = Inl (Error (js ''timeout''))
   \<and> responses (snd (handleThreatVerifyRespond weak_env sample_world (js ''t1'') autopost)) = []
   \<and> ws_events (snd (handleThreatVerifyRespond weak_env sample_world (js ''t1'') autopost)) = []"
proof -
  obtain w1 where ver: "verifyThreat weak_env sample_world (js ''t1'')
         = (Inr \<lparr>v_verificationStatus = JStr (js ''FALSE''), v_verificationConfidence = Fin 80,
                 v_verificationSummary =
                   JStr (js ''No trusted outlet confirms this claim; appears unsubstantiated.''),
                 v_evidenceIds = [js ''s1'']\<rparr>, w1)"
    using weak_env_verdict by blast
  have reply: "correction_reply weak_env = CallThrows (Error (js ''timeout''))"
    by (simp add: weak_env_def sample_env_def)
  define w2 where
    "w2 = w1\<lparr>oracle_log := oracle_log w1 @
                  [correction_request (js ''Zenith Bank'') (post_content sample_post)]\<rparr>"
  have gen: "generateResponseForFalse weak_env w1 (js ''t1'') = (Inl (Error (js ''timeout'')), w2)"
    using generateResponseForFalse_found(1)[OF verified_lookups[OF sample_lookups ver] reply]
    by (simp add: w2_def)
  have handle: "handleThreatVerifyRespond weak_env sample_world (js ''t1'') autopost
                = (Inl (Error (js ''timeout'')), w2)"
    using ver gen by (simp add: handleThreatVerifyRespond_def)
  have "responses w2 = []" "ws_events w2 = []"
    using verifyThreat_frame(3,4)[OF ver] by (simp_all add: w2_def sample_world_def)
  with ver handle show ?thesis by auto
qed

text \<open>
  C3. The "only if" half holds (above): a Response is written only after a FALSE or UNVERIFIED
  verdict. The "if" half fails when the correction oracle fails. The sample threat has one
  evidence item of credibility 0.4, so the verdict is FALSE with confidence 80; the
  synthesizer's oracle call then throws, outside any \<open>try\<close>, and
  \<open>handleThreatVerifyRespond\<close> throws with it, with or without autopost: no Response exists
  for the threat afterwards and no \<open>response_ready\<close> event has been emitted.
\<close>

theorem handleThreatVerifyRespond_no_response_when_oracle_throws:
  "(\<exists>w1. verifyThreat weak_env sample_world (js ''t1'')
         = (Inr \<lparr>v_verificationStatus = JStr (js ''FALSE''), v_verificationConfidence = Fin 80,
                 v_verificationSummary =
                   JStr (js ''No trusted outlet confirms this claim; appears unsubstantiated.''),
                 v_evidenceIds = [js ''s1'']\<rparr>, w1))
   \<and> fst (handleThreatVerifyRespond weak_env sample_world (js ''t1'') False)
       = Inl (Error (js ''timeout''))
   \<and> responses (snd (handleThreatVerifyRespond weak_env sample_world (js ''t1'') False)) = []
   \<and> ws_events (snd (handleThreatVerifyRespond weak_env sample_world (js ''t1'') False)) = []
   \<and> fst (handleThreatVerifyRespond weak_env sample_world (js ''t1'') True)
       = Inl (Error (js ''timeout''))
   \<and> responses (snd (handleThreatVerifyRespond weak_env sample_world (js ''t1'') True)) = []"
  using weak_env_handle[of False] weak_env_handle[of True] by simp

lemma verificationWorker_returns: "\<exists>r w'. verificationWorker e w j = (Inr r, w')"
  by (auto simp: verificationWorker_def split: prod.splits sum.splits)

text \<open>Whatever its processor meets, a job of the verification queue completes at its first attempt.\<close>

lemma run_verify_job_once:
  "\<exists>r. run_state (run_verify_job envs j w) = completed r
       \<and> run_attemptsMade (run_verify_job envs j w) = 1
       \<and> run_waits (run_verify_job envs j w) = []"
proof -
  obtain r w' where "verificationWorker (envs 0) w j = (Inr r, w')"
    using verificationWorker_returns by blast
  then show ?thesis
    by (simp add: run_verify_job_def verificationQueue_attempts_def numeral_2_eq_2)
qed

text \<open>
  C9. A verify-one job for the sample threat while the oracle times out at every attempt:
  the synthesizer's oracle call throws, \<open>handleThreatVerifyRespond\<close> throws, the worker's
  processor catches the error and returns \<open>{ error: "timeout" }\<close>. The queue sees a completed
  job after one attempt: no retry, no backoff wait, and the job is not failed.
\<close>

theorem verify_one_failure_completes_without_retry:
  "fst (handleThreatVerifyRespond sample_env sample_world (js ''t1'') False)
     = Inl (Error (js ''timeout''))
   \<and> run_state (run_verify_job (\<lambda>attempt. sample_env) sample_job sample_world)
     = completed (error_result (js ''timeout''))
   \<and> run_attemptsMade (run_verify_job (\<lambda>attempt. sample_env) sample_job sample_world) = 1
   \<and> run_waits (run_verify_job (\<lambda>attempt. sample_env) sample_job sample_world) = []"
proof -
  have quiet: "evidence_query sample_env = (\<lambda>brandId keyword. [])"
    by (simp add: sample_env_def)
  obtain w1 where ver: "verifyThreat sample_env sample_world (js ''t1'')
         = (Inr \<lparr>v_verificationStatus = JStr (js ''UNVERIFIED''), v_verificationConfidence = Fin 35,
                 v_verificationSummary =
                   JStr (js ''No relevant coverage found among trusted sources.''),
                 v_evidenceIds = []\<rparr>, w1)"
    using no_evidence_verdict[OF quiet] by blast
  have reply: "correction_reply sample_env = CallThrows (Error (js ''timeout''))"
    by (simp add: sample_env_def)
  obtain w2 where gen: "generateResponseForFalse sample_env w1 (js ''t1'')
                          = (Inl (Error (js ''timeout'')), w2)"
    using generateResponseForFalse_found(1)[OF verified_lookups[OF sample_lookups ver] reply]
    by blast
  have handle: "handleThreatVerifyRespond sample_env sample_world (js ''t1'') False
                = (Inl (Error (js ''timeout'')), w2)"
    using ver gen by (simp add: handleThreatVerifyRespond_def)
  have job: "job_name sample_job = js ''verify-one''" "job_threatId sample_job = js ''t1''"
    "job_autopost sample_job = False"
    by (simp_all add: sample_job_def)
  have "\<exists>w'. verificationWorker sample_env sample_world sample_job
               = (Inr (error_result (js ''timeout'')), w')"
    using handle job by (simp add: verificationWorker_def)
  then show ?thesis
    using handle
    by (auto simp: run_verify_job_def verificationQueue_attempts_def numeral_2_eq_2)
qed

end
